theory Spec2Isabelle
  imports Main
begin

section \<open>Data model\<close>

text \<open>
  The contract table of \<^verbatim>\<open>models/contracts.ts\<close> and the controllers of the
  \<^verbatim>\<open>ContractsRoute\<close> class. Identifiers (uuid columns), addresses and hashes
  are strings, as in the source (a stored uuid is its canonical text); timestamps are
  milliseconds as integers; the
  \<^verbatim>\<open>integer\<close> column \<^verbatim>\<open>chain_id\<close> is an \<open>int\<close>.
\<close>

type_synonym uuid = string
type_synonym address = string
type_synonym hash = string
type_synonym timestamp = int

datatype ContractState = NOT_VERIFIED | VERIFIED | DELETED

text \<open>A row of \<^verbatim>\<open>pgTable('contracts', ...)\<close>, one field per column.\<close>

record contract =
  createdAt_c :: timestamp
  updatedAt_c :: timestamp
  id_c :: uuid
  entityId_c :: uuid
  chainId_c :: int
  appId_c :: uuid
  name_c :: "string option"
  contractAddress_c :: address
  deployerAddress_c :: address
  deploymentTxHash_c :: hash
  state_c :: ContractState

text \<open>
  \<^verbatim>\<open>InsertContract\<close>, with the columns that \<^verbatim>\<open>createContractController\<close>
  supplies; the others (\<^verbatim>\<open>id\<close>, \<^verbatim>\<open>created_at\<close>, \<^verbatim>\<open>updated_at\<close>,
  \<^verbatim>\<open>name\<close>) take their column defaults on insert.
\<close>

record insert_contract =
  contractAddress_ic :: address
  deploymentTxHash_ic :: hash
  deployerAddress_ic :: address
  chainId_ic :: int
  appId_ic :: uuid
  state_ic :: ContractState
  entityId_ic :: uuid

datatype ChallengeState = PENDING | COMPLETED | EXPIRED

text \<open>
  Modelled from the spec: the challenge table of \<^verbatim>\<open>models/challenges.ts\<close>, which
  is not among the sources (spec section 3: id, entityId, contractId, address, chainId,
  state, creation timestamp).
\<close>

record challenge =
  id_ch :: uuid
  entityId_ch :: uuid
  contractId_ch :: uuid
  address_ch :: address
  chainId_ch :: int
  state_ch :: ChallengeState
  createdAt_ch :: timestamp

text \<open>
  Modelled from the spec: the transaction table of \<^verbatim>\<open>models/transactions.ts\<close>,
  which is not among the sources (spec section 3: deployer, hash, chain id, contract id,
  deployment timestamp; one row per contract).
\<close>

record transaction =
  id_t :: uuid
  entityId_t :: uuid
  contractId_t :: uuid
  chainId_t :: int
  fromAddress_t :: address
  transactionHash_t :: hash
  blockTimestamp_t :: int

text \<open>The relational store: one list of rows per table, in storage order.\<close>

record db =
  contracts :: "contract list"
  challenges :: "challenge list"
  transactions :: "transaction list"

section \<open>Errors, collaborators and the environment of a request\<close>

text \<open>
  \<open>Status code message\<close> is the error built by \<^verbatim>\<open>Trpc.handleStatus(code, message)\<close>.
  \<open>NotAuthenticated\<close> is what \<^verbatim>\<open>assertUserAuthenticated\<close> raises, \<open>DbError\<close> an
  exception of the database driver, \<open>RpcError\<close> a rejected promise of the chain client.
\<close>

datatype error = Status nat string | NotAuthenticated | DbError | RpcError

datatype success = Success

text \<open>The database calls of the controllers, used to say which of them fails.\<close>

datatype dbcall =
    GetActiveContract | GetContractByAddressAndChainId | RestoreDeletedContract
  | HasAlreadyVerifiedDeployer | InsertContract | VerifyContract | DeleteContract
  | GetUnexpiredChallenge | GetChallengeByChallengeId | InsertChallenge
  | CompleteChallenge | InsertTransaction | TransactionCommit

text \<open>What the controllers read of viem's transaction, receipt, block and trace.\<close>

record chain_tx =
  blockHash_tx :: hash
  from_tx :: address
  hash_tx :: hash

record receipt =
  contractAddress_r :: "address option"
  from_r :: address

record block =
  timestamp_b :: int

text \<open>
  A call of a trace. The trace is the JSON the endpoint answers: a call without a
  target has the empty text as its \<open>to_call\<close>, which is falsy as \<^verbatim>\<open>undefined\<close> is.
\<close>

record call =
  type_call :: string
  to_call :: address

record trace =
  calls_tr :: "call list option"

text \<open>
  An entry of \<^verbatim>\<open>supportedChainsPublicClientsMap\<close>. Every method returns \<open>None\<close>
  when its promise rejects. \<^verbatim>\<open>traceTransaction\<close> may resolve to a null trace
  (\<open>Some None\<close>).
\<close>

record client =
  getTransaction :: "hash \<Rightarrow> chain_tx option"
  getTransactionReceipt :: "hash \<Rightarrow> receipt option"
  getBlock :: "hash \<Rightarrow> block option"
  traceTransaction :: "hash \<Rightarrow> trace option option"
  verifyMessage :: "address \<Rightarrow> string \<Rightarrow> string \<Rightarrow> bool option"

text \<open>
  Everything outside the controller that one request depends on: the chain clients,
  viem's \<^verbatim>\<open>getAddress\<close> (checksum normalisation; the inputs have passed the zod
  address validation, so it does not throw), \<^verbatim>\<open>generateChallenge\<close> of
  \<^verbatim>\<open>@/utils\<close>, the clock (\<^verbatim>\<open>new Date()\<close>, \<^verbatim>\<open>defaultNow()\<close>), the values
  drawn by \<^verbatim>\<open>defaultRandom()\<close> for each table, the validity window of a
  challenge, which database calls throw, and the input function of the Postgres type
  \<^verbatim>\<open>uuid\<close>: it takes the text of a request to the uuid value it spells (upper-case
  digits, braces and other hyphenations spell the same value as the canonical text),
  and refuses a text that spells none, on which the query throws.
\<close>

record env =
  supportedChainsPublicClientsMap :: "int \<Rightarrow> client option"
  getAddress :: "address \<Rightarrow> address"
  generateChallenge :: "address \<Rightarrow> string"
  now :: timestamp
  randomContractId :: uuid
  randomTransactionId :: uuid
  randomChallengeId :: uuid
  challengeValidity :: int
  dbFails :: "dbcall \<Rightarrow> bool"
  uuidIn :: "string \<Rightarrow> uuid option"

record user =
  entityId :: uuid
  privyDid :: string

section \<open>Query helpers\<close>

text \<open>\<^verbatim>\<open>results[0] || null\<close>, and \<^verbatim>\<open>results[0]\<close> of a possibly empty result.\<close>

definition first :: "'a list \<Rightarrow> 'a option" where
  "first rs = (case rs of [] \<Rightarrow> None | r # _ \<Rightarrow> Some r)"

text \<open>
  \<^verbatim>\<open>db.update(t).set(...).where(...).returning()\<close>: the updated rows, and the
  table after the update.
\<close>

definition update_where :: "('r \<Rightarrow> bool) \<Rightarrow> ('r \<Rightarrow> 'r) \<Rightarrow> 'r list \<Rightarrow> 'r list \<times> 'r list" where
  "update_where hit upd rows =
     (map upd (filter hit rows), map (\<lambda>r. if hit r then upd r else r) rows)"

text \<open>A database call at a call site: it throws when the environment says so.\<close>

definition dbCall :: "env \<Rightarrow> dbcall \<Rightarrow> 'a \<Rightarrow> error + 'a" where
  "dbCall e site v = (if dbFails e site then Inl DbError else Inr v)"

section \<open>The contract store\<close>

text \<open>
  The functions of \<^verbatim>\<open>models/contracts.ts\<close>, each on the store it is given. A read
  returns the first matching row; an update returns the first updated row and the store
  after it. \<^verbatim>\<open>getActiveContract\<close> returns the contract columns: the joined entity,
  transaction and rebate records are read by no controller modelled here.
\<close>

definition getActiveContract :: "db \<Rightarrow> uuid \<Rightarrow> uuid \<Rightarrow> contract option" where
  "getActiveContract d contractId eid =
     first (filter (\<lambda>c. id_c c = contractId \<and> entityId_c c = eid \<and> state_c c \<noteq> DELETED)
                   (contracts d))"

definition getContractByAddressAndChainId ::
    "env \<Rightarrow> db \<Rightarrow> address \<Rightarrow> int \<Rightarrow> uuid \<Rightarrow> contract option" where
  "getContractByAddressAndChainId e d contractAddress chainId eid =
     first (filter (\<lambda>c. entityId_c c = eid
                       \<and> contractAddress_c c = getAddress e contractAddress
                       \<and> chainId_c c = chainId)
                   (contracts d))"

definition restoreDeletedContract ::
    "env \<Rightarrow> db \<Rightarrow> uuid \<Rightarrow> uuid \<Rightarrow> ContractState \<Rightarrow> contract option \<times> db" where
  "restoreDeletedContract e d contractId appId state =
     (let (results, rows) =
            update_where (\<lambda>c. id_c c = contractId)
              (\<lambda>c. c\<lparr>state_c := state, appId_c := appId, updatedAt_c := now e\<rparr>)
              (contracts d)
      in (first results, d\<lparr>contracts := rows\<rparr>))"

definition hasAlreadyVerifiedDeployer :: "env \<Rightarrow> db \<Rightarrow> uuid \<Rightarrow> address \<Rightarrow> bool" where
  "hasAlreadyVerifiedDeployer e d eid deployerAddress =
     (0 < length (take 1 (filter (\<lambda>c. entityId_c c = eid
                                     \<and> state_c c = VERIFIED
                                     \<and> deployerAddress_c c = getAddress e deployerAddress)
                                 (contracts d))))"

text \<open>
  The insert fails on the primary key \<^verbatim>\<open>id\<close> and on the unique index
  \<^verbatim>\<open>(entity_id, chain_id, contract_address)\<close> of the table definition.
\<close>

definition insertContract :: "env \<Rightarrow> db \<Rightarrow> insert_contract \<Rightarrow> error + (contract \<times> db)" where
  "insertContract e d c =
     (let row = \<lparr> createdAt_c = now e, updatedAt_c = now e, id_c = randomContractId e,
                  entityId_c = entityId_ic c, chainId_c = chainId_ic c, appId_c = appId_ic c,
                  name_c = None,
                  contractAddress_c = getAddress e (contractAddress_ic c),
                  deployerAddress_c = getAddress e (deployerAddress_ic c),
                  deploymentTxHash_c = deploymentTxHash_ic c,
                  state_c = state_ic c \<rparr>
      in if list_ex (\<lambda>r. id_c r = id_c row
                        \<or> (entityId_c r = entityId_c row \<and> chainId_c r = chainId_c row
                            \<and> contractAddress_c r = contractAddress_c row))
                    (contracts d)
         then Inl DbError
         else Inr (row, d\<lparr>contracts := contracts d @ [row]\<rparr>))"

definition verifyContract :: "env \<Rightarrow> db \<Rightarrow> uuid \<Rightarrow> uuid \<Rightarrow> contract option \<times> db" where
  "verifyContract e d eid contractId =
     (let (results, rows) =
            update_where (\<lambda>c. entityId_c c = eid \<and> id_c c = contractId)
              (\<lambda>c. c\<lparr>state_c := VERIFIED, updatedAt_c := now e\<rparr>)
              (contracts d)
      in (first results, d\<lparr>contracts := rows\<rparr>))"

text \<open>
  \<^verbatim>\<open>contractId\<close> is the text of the request (\<^verbatim>\<open>z.string()\<close>), compared with the
  \<^verbatim>\<open>uuid\<close> column \<^verbatim>\<open>id\<close>: Postgres reads the text as a uuid value and compares
  values, so every spelling of a stored id matches it, and the query throws on a text
  that is no uuid. The entity id is the one of the session, a stored value.
\<close>

definition deleteContract ::
    "env \<Rightarrow> db \<Rightarrow> uuid \<Rightarrow> string \<Rightarrow> (error + contract option) \<times> db" where
  "deleteContract e d eid contractId =
     (case uuidIn e contractId of
        None \<Rightarrow> (Inl DbError, d)
      | Some k \<Rightarrow>
          (let (results, rows) =
                 update_where (\<lambda>c. entityId_c c = eid \<and> id_c c = k)
                   (\<lambda>c. c\<lparr>state_c := DELETED, updatedAt_c := now e\<rparr>)
                   (contracts d)
           in (Inr (first results), d\<lparr>contracts := rows\<rparr>)))"

section \<open>The challenge store and the transaction table\<close>

record insert_challenge =
  entityId_ich :: uuid
  contractId_ich :: uuid
  address_ich :: address
  chainId_ich :: int
  state_ich :: ChallengeState

text \<open>
  Modelled from the spec: \<^verbatim>\<open>getUnexpiredChallenge\<close> of \<^verbatim>\<open>models/challenges.ts\<close>,
  which is not among the sources. Spec section 4.4: expiry is evaluated at read time, and
  unexpired means created within a fixed validity window and not already completed or
  expired.
\<close>

definition getUnexpiredChallenge :: "env \<Rightarrow> db \<Rightarrow> uuid \<Rightarrow> uuid \<Rightarrow> challenge option" where
  "getUnexpiredChallenge e d eid contractId =
     first (filter (\<lambda>c. entityId_ch c = eid \<and> contractId_ch c = contractId
                       \<and> now e < createdAt_ch c + challengeValidity e
                       \<and> state_ch c \<noteq> COMPLETED \<and> state_ch c \<noteq> EXPIRED)
                   (challenges d))"

text \<open>
  Modelled from the spec: \<^verbatim>\<open>getChallengeByChallengeId\<close> of
  \<^verbatim>\<open>models/challenges.ts\<close>, which is not among the sources. Spec sections 4.4 and
  4.5: the challenge is looked up by id, scoped to the entity, and its expiry is
  evaluated at read time: a challenge that is not unexpired (created within the validity
  window and not already completed or expired) is read as EXPIRED. So a completed
  challenge is terminal (spec section 3) and a second completeVerification on it is
  rejected (spec section 8).
\<close>

definition getChallengeByChallengeId :: "env \<Rightarrow> db \<Rightarrow> uuid \<Rightarrow> uuid \<Rightarrow> challenge option" where
  "getChallengeByChallengeId e d eid challengeId =
     map_option
       (\<lambda>c. if now e < createdAt_ch c + challengeValidity e
                \<and> state_ch c \<noteq> COMPLETED \<and> state_ch c \<noteq> EXPIRED
             then c else c\<lparr>state_ch := EXPIRED\<rparr>)
       (first (filter (\<lambda>c. id_ch c = challengeId \<and> entityId_ch c = eid) (challenges d)))"

text \<open>
  Modelled from the spec: \<^verbatim>\<open>insertChallenge\<close> of \<^verbatim>\<open>models/challenges.ts\<close>, which
  is not among the sources. The new row gets a fresh id and the current time as its
  creation time.
\<close>

definition insertChallenge :: "env \<Rightarrow> db \<Rightarrow> insert_challenge \<Rightarrow> challenge \<times> db" where
  "insertChallenge e d c =
     (let row = \<lparr> id_ch = randomChallengeId e, entityId_ch = entityId_ich c,
                  contractId_ch = contractId_ich c, address_ch = address_ich c,
                  chainId_ch = chainId_ich c, state_ch = state_ich c,
                  createdAt_ch = now e \<rparr>
      in (row, d\<lparr>challenges := challenges d @ [row]\<rparr>))"

text \<open>
  Modelled from the spec: \<^verbatim>\<open>completeChallenge\<close> of \<^verbatim>\<open>models/challenges.ts\<close>,
  which is not among the sources. Spec section 4.4:
  \<^verbatim>\<open>completeChallenge(entityId, challengeId)\<close> sets COMPLETED.
\<close>

definition completeChallenge :: "db \<Rightarrow> uuid \<Rightarrow> uuid \<Rightarrow> challenge option \<times> db" where
  "completeChallenge d eid challengeId =
     (let (results, rows) =
            update_where (\<lambda>c. entityId_ch c = eid \<and> id_ch c = challengeId)
              (\<lambda>c. c\<lparr>state_ch := COMPLETED\<rparr>)
              (challenges d)
      in (first results, d\<lparr>challenges := rows\<rparr>))"

record insert_transaction =
  entityId_it :: uuid
  contractId_it :: uuid
  chainId_it :: int
  fromAddress_it :: address
  transactionHash_it :: hash
  blockTimestamp_it :: int

text \<open>
  Modelled from the spec: \<^verbatim>\<open>viemContractDeploymentTransactionToDbTransaction\<close> of
  \<^verbatim>\<open>models/transactions.ts\<close>, which is not among the sources. Spec section 3: the
  record holds deployer, hash, chain id, contract id and deployment timestamp.
\<close>

definition viemContractDeploymentTransactionToDbTransaction ::
    "receipt \<Rightarrow> chain_tx \<Rightarrow> uuid \<Rightarrow> int \<Rightarrow> uuid \<Rightarrow> int \<Rightarrow> insert_transaction" where
  "viemContractDeploymentTransactionToDbTransaction transactionReceipt tx eid chainId
       contractId deploymentTimestamp =
     \<lparr> entityId_it = eid, contractId_it = contractId, chainId_it = chainId,
       fromAddress_it = from_r transactionReceipt, transactionHash_it = hash_tx tx,
       blockTimestamp_it = deploymentTimestamp \<rparr>"

text \<open>
  Modelled from the spec: \<^verbatim>\<open>insertTransaction\<close> of \<^verbatim>\<open>models/transactions.ts\<close>,
  which is not among the sources. The record is created once, with a fresh id.
\<close>

definition insertTransaction :: "env \<Rightarrow> db \<Rightarrow> insert_transaction \<Rightarrow> transaction \<times> db" where
  "insertTransaction e d t =
     (let row = \<lparr> id_t = randomTransactionId e, entityId_t = entityId_it t,
                  contractId_t = contractId_it t, chainId_t = chainId_it t,
                  fromAddress_t = fromAddress_it t,
                  transactionHash_t = transactionHash_it t,
                  blockTimestamp_t = blockTimestamp_it t \<rparr>
      in (row, d\<lparr>transactions := transactions d @ [row]\<rparr>))"

section \<open>Utilities and the transactional unit\<close>

text \<open>
  Modelled from the spec: \<^verbatim>\<open>addressEqualityCheck\<close> of \<^verbatim>\<open>@/utils\<close>, which is not
  among the sources. Spec section 4.5, step 4: checksum-normalised equality.
\<close>

definition addressEqualityCheck :: "env \<Rightarrow> address \<Rightarrow> address \<Rightarrow> bool" where
  "addressEqualityCheck e a b = (getAddress e a = getAddress e b)"

text \<open>JavaScript truthiness of an \<^verbatim>\<open>Address | null | undefined\<close>.\<close>

definition truthy :: "address option \<Rightarrow> bool" where
  "truthy a = (case a of None \<Rightarrow> False | Some s \<Rightarrow> s \<noteq> [])"

text \<open>
  \<^verbatim>\<open>database.transaction(async (tx) => ...)\<close>: the body runs on the store; when it
  throws, or when the commit fails, the writes it made are rolled back and the error is
  passed on.
\<close>

definition transaction_db ::
    "env \<Rightarrow> (db \<Rightarrow> (error + 'a) \<times> db) \<Rightarrow> db \<Rightarrow> (error + 'a) \<times> db" where
  "transaction_db e body d =
     (case body d of
        (Inl err, d') \<Rightarrow> (Inl err, d)
      | (Inr v, d') \<Rightarrow>
          if dbFails e TransactionCommit then (Inl DbError, d) else (Inr v, d'))"

text \<open>The decimal text of an integer, for template strings.\<close>

fun decimal_nat :: "nat \<Rightarrow> string" where
  "decimal_nat n =
     (if n < 10 then [char_of (48 + n)]
      else decimal_nat (n div 10) @ [char_of (48 + n mod 10)])"

definition decimal :: "int \<Rightarrow> string" where
  "decimal i = (if i < 0 then CHR ''-'' # decimal_nat (nat (- i)) else decimal_nat (nat i))"

section \<open>The controllers\<close>

definition deleteContractController ::
    "env \<Rightarrow> user option \<Rightarrow> string \<Rightarrow> db \<Rightarrow> (error + success) \<times> db" where
  "deleteContractController e usr contractId d =
     (case usr of
        None \<Rightarrow> (Inl NotAuthenticated, d)
      | Some u \<Rightarrow>
          (case dbCall e DeleteContract (deleteContract e d (entityId u) contractId) of
             Inl err \<Rightarrow> (Inl (Status 500 ''error deleting contract''), d)
           | Inr (Inl err, d') \<Rightarrow> (Inl (Status 500 ''error deleting contract''), d')
           | Inr (Inr row, d') \<Rightarrow> (Inr Success, d')))"

subsection \<open>createContract\<close>

record create_input =
  contractAddress_in :: address
  deploymentTxHash_in :: hash
  deployerAddress_in :: address
  chainId_in :: int
  appId_in :: uuid

text \<open>
  The three fetches of the deployment transaction, in the order of the source; each
  rejected promise is caught at its call and becomes the same 400 error.
\<close>

definition fetchDeployment :: "client \<Rightarrow> hash \<Rightarrow> error + (chain_tx \<times> receipt \<times> block)" where
  "fetchDeployment publicClient deploymentTxHash =
     (case getTransaction publicClient deploymentTxHash of
        None \<Rightarrow> Inl (Status 400 ''error fetching deployment transaction'')
      | Some deploymentTx \<Rightarrow>
          (case getTransactionReceipt publicClient deploymentTxHash of
             None \<Rightarrow> Inl (Status 400 ''error fetching deployment transaction'')
           | Some deploymentTxReceipt \<Rightarrow>
               (case getBlock publicClient (blockHash_tx deploymentTx) of
                  None \<Rightarrow> Inl (Status 400 ''error fetching deployment transaction'')
                | Some deploymentBlock \<Rightarrow>
                    Inr (deploymentTx, deploymentTxReceipt, deploymentBlock))))"

text \<open>
  The value of \<^verbatim>\<open>txContractAddress\<close> after the trace of a receipt that has no
  contract address: the target of the single CREATE2 call, and null otherwise.
\<close>

definition tracedContractAddress :: "trace option \<Rightarrow> address option" where
  "tracedContractAddress tracedTransaction =
     (case tracedTransaction of
        None \<Rightarrow> None
      | Some tr \<Rightarrow>
          (case calls_tr tr of
             None \<Rightarrow> None
           | Some cs \<Rightarrow>
               if length cs = 1 \<and> type_call (cs ! 0) = ''CREATE2''
               then Some (to_call (cs ! 0)) else None))"

definition resolveTxContractAddress ::
    "client \<Rightarrow> hash \<Rightarrow> receipt \<Rightarrow> error + address option" where
  "resolveTxContractAddress publicClient deploymentTxHash deploymentTxReceipt =
     (if truthy (contractAddress_r deploymentTxReceipt)
      then Inr (contractAddress_r deploymentTxReceipt)
      else
        (case traceTransaction publicClient deploymentTxHash of
           None \<Rightarrow> Inl (Status 500 ''error fetching deployment transaction'')
         | Some tracedTransaction \<Rightarrow> Inr (tracedContractAddress tracedTransaction)))"

text \<open>The body of the database transaction of createContract.\<close>

definition createContract_tx ::
    "env \<Rightarrow> user \<Rightarrow> address \<Rightarrow> address \<Rightarrow> create_input \<Rightarrow> chain_tx \<Rightarrow> receipt \<Rightarrow> block
       \<Rightarrow> db \<Rightarrow> (error + contract option) \<times> db" where
  "createContract_tx e u inputContractAddress inputDeployerAddress inp deploymentTx
       deploymentTxReceipt deploymentBlock d =
     (case dbCall e HasAlreadyVerifiedDeployer
             (hasAlreadyVerifiedDeployer e d (entityId u) inputDeployerAddress) of
        Inl err \<Rightarrow> (Inl err, d)
      | Inr isDeployerVerified \<Rightarrow>
          (case dbCall e GetContractByAddressAndChainId
                  (getContractByAddressAndChainId e d inputContractAddress (chainId_in inp)
                     (entityId u)) of
             Inl err \<Rightarrow> (Inl err, d)
           | Inr existingContract \<Rightarrow>
               (case existingContract of
                  Some existing \<Rightarrow>
                    if state_c existing \<noteq> DELETED
                    then (Inl (Status 400 ''contract already exists''), d)
                    else
                      (case dbCall e RestoreDeletedContract
                              (restoreDeletedContract e d (id_c existing) (appId_in inp)
                                 (if isDeployerVerified then VERIFIED else NOT_VERIFIED)) of
                         Inl err \<Rightarrow> (Inl (Status 500 ''error restoring deleted contract''), d)
                       | Inr (restoredContract, d1) \<Rightarrow> (Inr restoredContract, d1))
                | None \<Rightarrow>
                    (case dbCall e InsertContract
                            (insertContract e d
                               \<lparr> contractAddress_ic = inputContractAddress,
                                 deploymentTxHash_ic = deploymentTxHash_in inp,
                                 deployerAddress_ic = inputDeployerAddress,
                                 chainId_ic = chainId_in inp,
                                 appId_ic = appId_in inp,
                                 state_ic = (if isDeployerVerified then VERIFIED
                                             else NOT_VERIFIED),
                                 entityId_ic = entityId u \<rparr>) of
                       Inl err \<Rightarrow> (Inl err, d)
                     | Inr (Inl err) \<Rightarrow> (Inl err, d)
                     | Inr (Inr (contract, d1)) \<Rightarrow>
                         (case dbCall e InsertTransaction
                                 (insertTransaction e d1
                                    (viemContractDeploymentTransactionToDbTransaction
                                       deploymentTxReceipt deploymentTx (entityId u)
                                       (chainId_in inp) (id_c contract)
                                       (timestamp_b deploymentBlock))) of
                            Inl err \<Rightarrow> (Inl err, d1)
                          | Inr (t, d2) \<Rightarrow> (Inr (Some contract), d2))))))"

text \<open>
  The part of the controller after the contract address of the transaction is known: the
  three checks, then the transaction, whose every error the outer \<^verbatim>\<open>catch\<close> turns
  into the 500 error.
\<close>

definition createContract_store ::
    "env \<Rightarrow> user \<Rightarrow> address \<Rightarrow> address \<Rightarrow> create_input \<Rightarrow> chain_tx \<Rightarrow> receipt \<Rightarrow> block
       \<Rightarrow> address option \<Rightarrow> db \<Rightarrow> (error + contract option) \<times> db" where
  "createContract_store e u inputContractAddress inputDeployerAddress inp deploymentTx
       deploymentTxReceipt deploymentBlock txContractAddress d =
     (case (if truthy txContractAddress then txContractAddress else None) of
        None \<Rightarrow>
          (Inl (Status 400 ''the provided deployment transaction did not create a contract''), d)
      | Some txAddress \<Rightarrow>
          if \<not> addressEqualityCheck e (from_r deploymentTxReceipt) inputDeployerAddress
          then (Inl (Status 400 ''deployer address does not match deployment transaction''), d)
          else if \<not> addressEqualityCheck e txAddress inputContractAddress
          then (Inl (Status 400 ''contract was not created by deployment transaction''), d)
          else
            (case transaction_db e
                    (createContract_tx e u inputContractAddress inputDeployerAddress inp
                       deploymentTx deploymentTxReceipt deploymentBlock) d of
               (Inl err, d') \<Rightarrow> (Inl (Status 500 ''error creating contract''), d')
             | (Inr result, d') \<Rightarrow> (Inr result, d')))"

definition createContractController ::
    "env \<Rightarrow> user option \<Rightarrow> create_input \<Rightarrow> db \<Rightarrow> (error + contract option) \<times> db" where
  "createContractController e usr inp d =
     (let inputContractAddress = getAddress e (contractAddress_in inp);
          inputDeployerAddress = getAddress e (deployerAddress_in inp)
      in case usr of
           None \<Rightarrow> (Inl NotAuthenticated, d)
         | Some u \<Rightarrow>
             (case supportedChainsPublicClientsMap e (chainId_in inp) of
                None \<Rightarrow> (Inl (Status 400 ''chain not supported''), d)
              | Some publicClient \<Rightarrow>
                  (case fetchDeployment publicClient (deploymentTxHash_in inp) of
                     Inl err \<Rightarrow> (Inl err, d)
                   | Inr (deploymentTx, deploymentTxReceipt, deploymentBlock) \<Rightarrow>
                       (case resolveTxContractAddress publicClient (deploymentTxHash_in inp)
                               deploymentTxReceipt of
                          Inl err \<Rightarrow> (Inl err, d)
                        | Inr txContractAddress \<Rightarrow>
                            createContract_store e u inputContractAddress
                              inputDeployerAddress inp deploymentTx deploymentTxReceipt
                              deploymentBlock txContractAddress d))))"

subsection \<open>startVerification\<close>

definition startVerificationController ::
    "env \<Rightarrow> user option \<Rightarrow> uuid \<Rightarrow> db \<Rightarrow> (error + (challenge \<times> string)) \<times> db" where
  "startVerificationController e usr contractId d =
     (case usr of
        None \<Rightarrow> (Inl NotAuthenticated, d)
      | Some u \<Rightarrow>
          (case dbCall e GetActiveContract (getActiveContract d contractId (entityId u)) of
             Inl err \<Rightarrow> (Inl (Status 500 ''error fetching contract''), d)
           | Inr None \<Rightarrow> (Inl (Status 400 ''contract does not exist''), d)
           | Inr (Some contract) \<Rightarrow>
               if state_c contract = VERIFIED
               then (Inl (Status 400 ''contract is already verified''), d)
               else
                 (case dbCall e GetUnexpiredChallenge
                         (getUnexpiredChallenge e d (entityId u) contractId) of
                    Inl err \<Rightarrow> (Inl (Status 500 ''error fetching challenge''), d)
                  | Inr challenge \<Rightarrow>
                      (let challengeToComplete =
                             generateChallenge e (deployerAddress_c contract)
                       in case challenge of
                            Some ch \<Rightarrow> (Inr (ch, challengeToComplete), d)
                          | None \<Rightarrow>
                              (case dbCall e InsertChallenge
                                      (insertChallenge e d
                                         \<lparr> entityId_ich = entityId u,
                                           contractId_ich = contractId,
                                           address_ich = deployerAddress_c contract,
                                           chainId_ich = chainId_c contract,
                                           state_ich = PENDING \<rparr>) of
                                 Inl err \<Rightarrow> (Inl (Status 500 ''error creating challenge''), d)
                               | Inr (result, d') \<Rightarrow>
                                   (Inr (result, challengeToComplete), d'))))))"

subsection \<open>completeVerification\<close>

record complete_input =
  challengeId_in :: uuid
  signature_in :: string

text \<open>The body of the database transaction of completeVerification.\<close>

definition completeVerification_tx ::
    "env \<Rightarrow> user \<Rightarrow> uuid \<Rightarrow> challenge \<Rightarrow> db \<Rightarrow> (error + unit) \<times> db" where
  "completeVerification_tx e u challengeId ch d =
     (case dbCall e CompleteChallenge (completeChallenge d (entityId u) challengeId) of
        Inl err \<Rightarrow> (Inl err, d)
      | Inr (r1, d1) \<Rightarrow>
          (case dbCall e VerifyContract
                  (verifyContract e d1 (entityId u) (contractId_ch ch)) of
             Inl err \<Rightarrow> (Inl err, d1)
           | Inr (r2, d2) \<Rightarrow> (Inr (), d2)))"

definition completeVerificationController ::
    "env \<Rightarrow> user option \<Rightarrow> complete_input \<Rightarrow> db \<Rightarrow> (error + success) \<times> db" where
  "completeVerificationController e usr inp d =
     (case usr of
        None \<Rightarrow> (Inl NotAuthenticated, d)
      | Some u \<Rightarrow>
          (case dbCall e GetChallengeByChallengeId
                  (getChallengeByChallengeId e d (entityId u) (challengeId_in inp)) of
             Inl err \<Rightarrow> (Inl (Status 500 ''error fetching challenge''), d)
           | Inr None \<Rightarrow> (Inl (Status 400 ''challenge does not exist or is expired''), d)
           | Inr (Some ch) \<Rightarrow>
               if state_ch ch = EXPIRED
               then (Inl (Status 400 ''challenge does not exist or is expired''), d)
               else
                 (case supportedChainsPublicClientsMap e (chainId_ch ch) of
                    None \<Rightarrow>
                      (Inl (Status 500 (''challenge is on invalid chain id: ''
                                          @ decimal (chainId_ch ch))), d)
                  | Some publicClient \<Rightarrow>
                      (case verifyMessage publicClient (address_ch ch)
                              (generateChallenge e (address_ch ch)) (signature_in inp) of
                         None \<Rightarrow> (Inl RpcError, d)
                       | Some result \<Rightarrow>
                           if \<not> result
                           then (Inl (Status 400 ''challenge was not completed successfully''), d)
                           else
                             (case transaction_db e
                                     (completeVerification_tx e u (challengeId_in inp) ch) d of
                                (Inl err, d') \<Rightarrow>
                                  (Inl (Status 500
                                          ''server failed to mark challenge as complete''), d')
                              | (Inr r, d') \<Rightarrow> (Inr Success, d'))))))"

section \<open>The unit of completeVerification\<close>

text \<open>The store after both updates of the unit.\<close>

definition bothApplied :: "env \<Rightarrow> db \<Rightarrow> uuid \<Rightarrow> uuid \<Rightarrow> uuid \<Rightarrow> db" where
  "bothApplied e d eid challengeId contractId =
     snd (verifyContract e (snd (completeChallenge d eid challengeId)) eid contractId)"

section \<open>The challenge issued by startVerification\<close>

text \<open>The challenge row that startVerification inserts for a contract.\<close>

definition issuedChallenge :: "env \<Rightarrow> user \<Rightarrow> uuid \<Rightarrow> contract \<Rightarrow> challenge" where
  "issuedChallenge e u contractId c =
     \<lparr> id_ch = randomChallengeId e, entityId_ch = entityId u, contractId_ch = contractId,
       address_ch = deployerAddress_c c, chainId_ch = chainId_c c, state_ch = PENDING,
       createdAt_ch = now e \<rparr>"

section \<open>Referential integrity of the challenge table\<close>

text \<open>
  Referential integrity of the challenge table: every challenge names a contract row of
  its own entity.
\<close>

definition linked :: "db \<Rightarrow> bool" where
  "linked d =
     list_all (\<lambda>ch. list_ex (\<lambda>c. entityId_c c = entityId_ch ch \<and> id_c c = contractId_ch ch)
                         (contracts d))
              (challenges d)"

section \<open>Sample data\<close>

text \<open>
  A small store and environment on which the theorems below are instantiated: entity
  \<open>E\<close> owns contract \<open>c1\<close> at \<open>0xABC\<close> on chain 10, deployed by \<open>0xDEF\<close> in
  transaction \<open>0x111\<close>, with a pending challenge \<open>h1\<close>. The sample normaliser puts
  the hexadecimal letters in upper case.
\<close>

definition upper_hex :: "char \<Rightarrow> char" where
  "upper_hex c =
     (if c = CHR ''a'' then CHR ''A'' else if c = CHR ''b'' then CHR ''B''
      else if c = CHR ''c'' then CHR ''C'' else if c = CHR ''d'' then CHR ''D''
      else if c = CHR ''e'' then CHR ''E'' else if c = CHR ''f'' then CHR ''F'' else c)"

definition sample_getAddress :: "address \<Rightarrow> address" where
  "sample_getAddress a = map upper_hex a"

definition lower_hex :: "char \<Rightarrow> char" where
  "lower_hex c =
     (if c = CHR ''A'' then CHR ''a'' else if c = CHR ''B'' then CHR ''b''
      else if c = CHR ''C'' then CHR ''c'' else if c = CHR ''D'' then CHR ''d''
      else if c = CHR ''E'' then CHR ''e'' else if c = CHR ''F'' then CHR ''f'' else c)"

text \<open>
  The ids of the sample contracts are short, so the sample input function of uuid accepts
  a non-empty text of hexadecimal digits in either case and gives it in lower case, and
  refuses every other text.
\<close>

definition sample_uuidIn :: "string \<Rightarrow> uuid option" where
  "sample_uuidIn s =
     (if s \<noteq> [] \<and> list_all (\<lambda>c. c \<in> set ''0123456789abcdefABCDEF'') s
      then Some (map lower_hex s) else None)"

definition sample_tx :: chain_tx where
  "sample_tx = \<lparr> blockHash_tx = ''0xb10c'', from_tx = ''0xdef'', hash_tx = ''0x111'' \<rparr>"

definition sample_receipt :: receipt where
  "sample_receipt = \<lparr> contractAddress_r = Some ''0xabc'', from_r = ''0xdef'' \<rparr>"

definition sample_block :: block where
  "sample_block = \<lparr> timestamp_b = 1700000000 \<rparr>"

definition sample_client :: client where
  "sample_client =
     \<lparr> getTransaction = (\<lambda>h. if h = ''0x111'' then Some sample_tx else None),
       getTransactionReceipt = (\<lambda>h. if h = ''0x111'' then Some sample_receipt else None),
       getBlock = (\<lambda>h. if h = ''0xb10c'' then Some sample_block else None),
       traceTransaction = (\<lambda>h. None),
       verifyMessage = (\<lambda>a m s. Some (s = ''signed:'' @ m)) \<rparr>"

definition sample_env :: env where
  "sample_env =
     \<lparr> supportedChainsPublicClientsMap = (\<lambda>i. if i = 10 then Some sample_client else None),
       getAddress = sample_getAddress,
       generateChallenge = (\<lambda>a. ''I own '' @ a),
       now = 5000,
       randomContractId = ''c2'',
       randomTransactionId = ''t2'',
       randomChallengeId = ''h2'',
       challengeValidity = 1000,
       dbFails = (\<lambda>site. False),
       uuidIn = sample_uuidIn \<rparr>"

definition userE :: user where
  "userE = \<lparr> entityId = ''E'', privyDid = ''did:E'' \<rparr>"

definition userF :: user where
  "userF = \<lparr> entityId = ''F'', privyDid = ''did:F'' \<rparr>"

definition sample_contract :: contract where
  "sample_contract =
     \<lparr> createdAt_c = 1000, updatedAt_c = 1000, id_c = ''c1'', entityId_c = ''E'',
       chainId_c = 10, appId_c = ''app1'', name_c = None, contractAddress_c = ''0xABC'',
       deployerAddress_c = ''0xDEF'', deploymentTxHash_c = ''0x111'',
       state_c = NOT_VERIFIED \<rparr>"

definition sample_challenge :: challenge where
  "sample_challenge =
     \<lparr> id_ch = ''h1'', entityId_ch = ''E'', contractId_ch = ''c1'', address_ch = ''0xDEF'',
       chainId_ch = 10, state_ch = PENDING, createdAt_ch = 4500 \<rparr>"

definition sample_db :: db where
  "sample_db = \<lparr> contracts = [sample_contract], challenges = [sample_challenge],
                 transactions = [] \<rparr>"

definition sample_create :: create_input where
  "sample_create =
     \<lparr> contractAddress_in = ''0xabc'', deploymentTxHash_in = ''0x111'',
       deployerAddress_in = ''0xdef'', chainId_in = 10, appId_in = ''app2'' \<rparr>"

definition sample_env_with :: "client \<Rightarrow> env" where
  "sample_env_with pc =
     sample_env\<lparr>supportedChainsPublicClientsMap := (\<lambda>i. if i = 10 then Some pc else None)\<rparr>"

definition sample_factory_client :: "call list \<Rightarrow> client" where
  "sample_factory_client cs =
     sample_client\<lparr> getTransactionReceipt :=
                       (\<lambda>h. if h = ''0x111''
                            then Some (sample_receipt\<lparr>contractAddress_r := None\<rparr>) else None),
                     traceTransaction := (\<lambda>h. Some (Some \<lparr> calls_tr = Some cs \<rparr>)) \<rparr>"

definition empty_db :: db where
  "empty_db = \<lparr> contracts = [], challenges = [], transactions = [] \<rparr>"

definition create2_call :: call where
  "create2_call = \<lparr> type_call = ''CREATE2'', to_call = ''0xabc'' \<rparr>"

definition targetless_call :: call where
  "targetless_call = \<lparr> type_call = ''CREATE2'', to_call = [] \<rparr>"

definition plain_call :: call where
  "plain_call = \<lparr> type_call = ''CALL'', to_call = ''0xabc'' \<rparr>"

definition other_contract :: contract where
  "other_contract = sample_contract\<lparr> id_c := ''c9'', entityId_c := ''F'' \<rparr>"

definition deleted_db :: db where
  "deleted_db = \<lparr> contracts = [sample_contract\<lparr>state_c := DELETED\<rparr>, other_contract],
                  challenges = [], transactions = [] \<rparr>"

definition twice_input :: complete_input where
  "twice_input = \<lparr> challengeId_in = ''h1'', signature_in = ''signed:I own 0xDEF'' \<rparr>"

definition completed_db :: db where
  "completed_db = \<lparr> contracts = [sample_contract\<lparr>state_c := VERIFIED\<rparr>],
                    challenges = [sample_challenge\<lparr>state_ch := COMPLETED\<rparr>],
                    transactions = [] \<rparr>"

definition later_env :: env where
  "later_env = sample_env\<lparr> now := 5500, randomChallengeId := ''h3'' \<rparr>"

definition redeploy_client :: client where
  "redeploy_client =
     sample_client\<lparr>
       getTransaction :=
         (\<lambda>h. if h = ''0x222''
              then Some \<lparr> blockHash_tx = ''0xb10c'', from_tx = ''0xfee'', hash_tx = ''0x222'' \<rparr>
              else None),
       getTransactionReceipt :=
         (\<lambda>h. if h = ''0x222''
              then Some \<lparr> contractAddress_r = Some ''0xabc'', from_r = ''0xfee'' \<rparr>
              else None) \<rparr>"

definition redeploy_create :: create_input where
  "redeploy_create =
     \<lparr> contractAddress_in = ''0xabc'', deploymentTxHash_in = ''0x222'',
       deployerAddress_in = ''0xfee'', chainId_in = 10, appId_in = ''app2'' \<rparr>"

definition registered_contract :: contract where
  "registered_contract =
     \<lparr> createdAt_c = 5000, updatedAt_c = 5000, id_c = ''c2'', entityId_c = ''E'',
       chainId_c = 10, appId_c = ''app2'', name_c = None, contractAddress_c = ''0xABC'',
       deployerAddress_c = ''0xDEF'', deploymentTxHash_c = ''0x111'',
       state_c = NOT_VERIFIED \<rparr>"

definition registered_db :: db where
  "registered_db =
     \<lparr> contracts = [registered_contract], challenges = [],
       transactions = [\<lparr> id_t = ''t2'', entityId_t = ''E'', contractId_t = ''c2'',
                         chainId_t = 10, fromAddress_t = ''0xdef'',
                         transactionHash_t = ''0x111'', blockTimestamp_t = 1700000000 \<rparr>] \<rparr>"

section \<open>Evaluation rules\<close>

lemmas sample_defs = sample_env_def sample_client_def sample_tx_def sample_receipt_def
  sample_block_def userE_def userF_def sample_contract_def sample_challenge_def sample_db_def
  sample_create_def sample_getAddress_def upper_hex_def lower_hex_def sample_uuidIn_def sample_env_with_def
  sample_factory_client_def empty_db_def create2_call_def plain_call_def targetless_call_def
  other_contract_def deleted_db_def twice_input_def completed_db_def later_env_def
  redeploy_client_def redeploy_create_def registered_contract_def registered_db_def

lemmas store_defs = first_def update_where_def dbCall_def getActiveContract_def
  getContractByAddressAndChainId_def restoreDeletedContract_def hasAlreadyVerifiedDeployer_def
  insertContract_def verifyContract_def deleteContract_def getUnexpiredChallenge_def
  getChallengeByChallengeId_def insertChallenge_def completeChallenge_def
  viemContractDeploymentTransactionToDbTransaction_def insertTransaction_def
  addressEqualityCheck_def truthy_def transaction_db_def Let_def

lemmas controller_defs = deleteContractController_def createContractController_def
  createContract_store_def createContract_tx_def fetchDeployment_def
  resolveTxContractAddress_def tracedContractAddress_def startVerificationController_def
  completeVerificationController_def completeVerification_tx_def

section \<open>Lemmas about the query helpers\<close>

lemma first_filter_SomeD: "first (filter P xs) = Some x \<Longrightarrow> P x \<and> x \<in> set xs"
  by (induction xs) (auto simp: first_def split: if_splits)

lemma first_filter_None: "(first (filter P xs) = None) = (\<forall>x\<in>set xs. \<not> P x)"
  by (induction xs) (auto simp: first_def)

lemma first_filter_map:
  "(\<And>x. P (g x) = P x) \<Longrightarrow> first (filter P (map g xs)) = map_option g (first (filter P xs))"
  by (induction xs) (auto simp: first_def)

lemma map_upd_id: "\<forall>x\<in>set xs. \<not> P x \<Longrightarrow> map (\<lambda>r. if P r then f r else r) xs = xs"
  by (induction xs) auto

lemma update_where_no_hit:
  "\<forall>x\<in>set rows. \<not> hit x \<Longrightarrow> update_where hit upd rows = ([], rows)"
  by (simp add: update_where_def map_upd_id filter_empty_conv[THEN iffD2])

section \<open>Deleting a contract that does not match\<close>

lemma deleteContract_run:
  "deleteContract e d eid contractId =
     (case uuidIn e contractId of
        None \<Rightarrow> (Inl DbError, d)
      | Some k \<Rightarrow>
          (Inr (first (map (\<lambda>c. c\<lparr>state_c := DELETED, updatedAt_c := now e\<rparr>)
                         (filter (\<lambda>c. entityId_c c = eid \<and> id_c c = k) (contracts d)))),
           d\<lparr>contracts := map (\<lambda>c. if entityId_c c = eid \<and> id_c c = k
                                    then c\<lparr>state_c := DELETED, updatedAt_c := now e\<rparr>
                                    else c) (contracts d)\<rparr>))"
  by (simp add: deleteContract_def update_where_def split: option.splits)

lemma deleteContractController_run:
  "deleteContractController e (Some u) contractId d =
     (case uuidIn e contractId of
        None \<Rightarrow> (Inl (Status 500 ''error deleting contract''), d)
      | Some k \<Rightarrow>
          if dbFails e DeleteContract
          then (Inl (Status 500 ''error deleting contract''), d)
          else (Inr Success,
                d\<lparr>contracts := map (\<lambda>c. if entityId_c c = entityId u \<and> id_c c = k
                                         then c\<lparr>state_c := DELETED, updatedAt_c := now e\<rparr>
                                         else c) (contracts d)\<rparr>))"
  by (simp add: deleteContractController_def deleteContract_run dbCall_def
        split: option.splits)

text \<open>
  Claim C10, as amended. The contract id of the request is text, read by the database as
  a uuid. When the text is no uuid the query throws and the controller answers status
  500 \<^verbatim>\<open>error deleting contract\<close>, with the store unchanged. When it spells the uuid
  \<open>k\<close> and the database call does not fail, the controller answers
  \<^verbatim>\<open>{ success: true }\<close> and exactly the rows of the calling entity with id \<open>k\<close> are set
  to DELETED, whatever the spelling in the request. When no row of the entity has id
  \<open>k\<close>, \<^verbatim>\<open>deleteContract\<close> updates zero rows and returns no row, the store is left as
  it was, and the answer is still \<^verbatim>\<open>{ success: true }\<close>: no not-found error is raised.
\<close>

theorem deleteContract_no_match:
  "(uuidIn e contractId = None \<longrightarrow>
      deleteContractController e (Some u) contractId d
        = (Inl (Status 500 ''error deleting contract''), d))
   \<and> (uuidIn e contractId = Some k \<and> \<not> dbFails e DeleteContract \<longrightarrow>
        deleteContractController e (Some u) contractId d
          = (Inr Success,
             d\<lparr>contracts := map (\<lambda>c. if entityId_c c = entityId u \<and> id_c c = k
                                      then c\<lparr>state_c := DELETED, updatedAt_c := now e\<rparr>
                                      else c) (contracts d)\<rparr>))
   \<and> (uuidIn e contractId = Some k \<and> \<not> dbFails e DeleteContract
        \<and> (\<forall>c\<in>set (contracts d). \<not> (entityId_c c = entityId u \<and> id_c c = k)) \<longrightarrow>
        deleteContract e d (entityId u) contractId = (Inr None, d)
        \<and> deleteContractController e (Some u) contractId d = (Inr Success, d))"
proof -
  have p1: "uuidIn e contractId = None \<longrightarrow>
      deleteContractController e (Some u) contractId d
        = (Inl (Status 500 ''error deleting contract''), d)"
    by (simp add: deleteContractController_run)
  have p2: "uuidIn e contractId = Some k \<and> \<not> dbFails e DeleteContract \<longrightarrow>
        deleteContractController e (Some u) contractId d
          = (Inr Success,
             d\<lparr>contracts := map (\<lambda>c. if entityId_c c = entityId u \<and> id_c c = k
                                      then c\<lparr>state_c := DELETED, updatedAt_c := now e\<rparr>
                                      else c) (contracts d)\<rparr>)"
    by (simp add: deleteContractController_run)
  have p3: "uuidIn e contractId = Some k \<and> \<not> dbFails e DeleteContract
        \<and> (\<forall>c\<in>set (contracts d). \<not> (entityId_c c = entityId u \<and> id_c c = k)) \<longrightarrow>
        deleteContract e d (entityId u) contractId = (Inr None, d)
        \<and> deleteContractController e (Some u) contractId d = (Inr Success, d)"
  proof
    assume h: "uuidIn e contractId = Some k \<and> \<not> dbFails e DeleteContract
        \<and> (\<forall>c\<in>set (contracts d). \<not> (entityId_c c = entityId u \<and> id_c c = k))"
    then have none: "\<forall>c\<in>set (contracts d). \<not> (entityId_c c = entityId u \<and> id_c c = k)"
      by simp
    have same: "map (\<lambda>c. if entityId_c c = entityId u \<and> id_c c = k
                        then c\<lparr>state_c := DELETED, updatedAt_c := now e\<rparr> else c) (contracts d)
                = contracts d"
      using none by (rule map_upd_id)
    have empty: "filter (\<lambda>c. entityId_c c = entityId u \<and> id_c c = k) (contracts d) = []"
      using none by (simp add: filter_empty_conv)
    show "deleteContract e d (entityId u) contractId = (Inr None, d)
        \<and> deleteContractController e (Some u) contractId d = (Inr Success, d)"
      using h same empty
      by (simp add: deleteContractController_run deleteContract_run first_def)
  qed
  show ?thesis
    by (rule conjI [OF p1 conjI [OF p2 p3]])
qed

theorem deleteContract_no_match_witness:
  "deleteContractController sample_env (Some userE) ''not-a-uuid'' sample_db
     = (Inl (Status 500 ''error deleting contract''), sample_db)
   \<and> deleteContractController sample_env (Some userE) ''C1'' sample_db
     = (Inr Success,
        sample_db\<lparr>contracts := [sample_contract\<lparr>state_c := DELETED, updatedAt_c := 5000\<rparr>]\<rparr>)
   \<and> deleteContract sample_env sample_db (entityId userF) ''c1'' = (Inr None, sample_db)
   \<and> deleteContractController sample_env (Some userF) ''c1'' sample_db
     = (Inr Success, sample_db)"
proof -
  have bad: "uuidIn sample_env ''not-a-uuid'' = None"
    by (simp add: sample_env_def sample_uuidIn_def)
  have upper: "uuidIn sample_env ''C1'' = Some ''c1'' \<and> \<not> dbFails sample_env DeleteContract"
    by (simp add: sample_env_def sample_uuidIn_def lower_hex_def)
  have other: "uuidIn sample_env ''c1'' = Some ''c1'' \<and> \<not> dbFails sample_env DeleteContract
        \<and> (\<forall>c\<in>set (contracts sample_db). \<not> (entityId_c c = entityId userF \<and> id_c c = ''c1''))"
    by (simp add: sample_defs)
  have 1: "deleteContractController sample_env (Some userE) ''not-a-uuid'' sample_db
             = (Inl (Status 500 ''error deleting contract''), sample_db)"
    using deleteContract_no_match [where e = sample_env and contractId = "''not-a-uuid''"
            and u = userE and d = sample_db, THEN conjunct1] bad
    by (rule mp)
  have "deleteContractController sample_env (Some userE) ''C1'' sample_db
          = (Inr Success,
             sample_db\<lparr>contracts :=
               map (\<lambda>c. if entityId_c c = entityId userE \<and> id_c c = ''c1''
                         then c\<lparr>state_c := DELETED, updatedAt_c := now sample_env\<rparr> else c)
                   (contracts sample_db)\<rparr>)"
    using deleteContract_no_match [where e = sample_env and contractId = "''C1''"
            and u = userE and d = sample_db and k = "''c1''", THEN conjunct2, THEN conjunct1]
          upper
    by (rule mp)
  then have 2: "deleteContractController sample_env (Some userE) ''C1'' sample_db
     = (Inr Success,
        sample_db\<lparr>contracts := [sample_contract\<lparr>state_c := DELETED, updatedAt_c := 5000\<rparr>]\<rparr>)"
    by (simp add: sample_defs)
  have 3: "deleteContract sample_env sample_db (entityId userF) ''c1'' = (Inr None, sample_db)
           \<and> deleteContractController sample_env (Some userF) ''c1'' sample_db
               = (Inr Success, sample_db)"
    using deleteContract_no_match [where e = sample_env and contractId = "''c1''"
            and u = userF and d = sample_db and k = "''c1''", THEN conjunct2, THEN conjunct2]
          other
    by (rule mp)
  show ?thesis using 1 2 3 by simp
qed

text \<open>
  The claim as stated fails for a contract id that is no uuid: the text matches no
  contract of the entity, and the answer is status 500, not \<^verbatim>\<open>{ success: true }\<close>.
\<close>

theorem deleteContract_malformed_id_counterexample:
  "\<not> list_ex (\<lambda>c. id_c c = ''not-a-uuid'') (contracts sample_db)
   \<and> deleteContractController sample_env (Some userE) ''not-a-uuid'' sample_db
       = (Inl (Status 500 ''error deleting contract''), sample_db)"
  by (simp add: controller_defs sample_defs store_defs)

section \<open>Failures of the chain client during registration\<close>

text \<open>
  Claim C9. In createContract on a supported chain, a rejected \<^verbatim>\<open>getTransaction\<close>,
  a rejected \<^verbatim>\<open>getTransactionReceipt\<close> and a rejected \<^verbatim>\<open>getBlock\<close> each end
  the request with status 400 and the message of a deployment-transaction fetch error,
  while a rejected \<^verbatim>\<open>traceTransaction\<close> (reached when the receipt carries no
  contract address) ends it with status 500. The store is unchanged in all four cases.
\<close>

theorem createContract_rpc_failures:
  assumes "supportedChainsPublicClientsMap e (chainId_in inp) = Some pc"
  shows "(getTransaction pc (deploymentTxHash_in inp) = None \<longrightarrow>
            createContractController e (Some u) inp d
              = (Inl (Status 400 ''error fetching deployment transaction''), d))
       \<and> (getTransaction pc (deploymentTxHash_in inp) = Some tx
            \<and> getTransactionReceipt pc (deploymentTxHash_in inp) = None \<longrightarrow>
            createContractController e (Some u) inp d
              = (Inl (Status 400 ''error fetching deployment transaction''), d))
       \<and> (getTransaction pc (deploymentTxHash_in inp) = Some tx
            \<and> getTransactionReceipt pc (deploymentTxHash_in inp) = Some rc
            \<and> getBlock pc (blockHash_tx tx) = None \<longrightarrow>
            createContractController e (Some u) inp d
              = (Inl (Status 400 ''error fetching deployment transaction''), d))
       \<and> (getTransaction pc (deploymentTxHash_in inp) = Some tx
            \<and> getTransactionReceipt pc (deploymentTxHash_in inp) = Some rc
            \<and> getBlock pc (blockHash_tx tx) = Some bl
            \<and> \<not> truthy (contractAddress_r rc)
            \<and> traceTransaction pc (deploymentTxHash_in inp) = None \<longrightarrow>
            createContractController e (Some u) inp d
              = (Inl (Status 500 ''error fetching deployment transaction''), d))"
  using assms
  by (simp add: createContractController_def fetchDeployment_def resolveTxContractAddress_def
        Let_def)

theorem createContract_rpc_failures_witness:
  "createContractController
       (sample_env_with (sample_client\<lparr>getTransaction := (\<lambda>h. None)\<rparr>))
       (Some userE) sample_create sample_db
     = (Inl (Status 400 ''error fetching deployment transaction''), sample_db)
   \<and> createContractController
       (sample_env_with (sample_client\<lparr>getTransactionReceipt := (\<lambda>h. None)\<rparr>))
       (Some userE) sample_create sample_db
     = (Inl (Status 400 ''error fetching deployment transaction''), sample_db)
   \<and> createContractController
       (sample_env_with (sample_client\<lparr>getBlock := (\<lambda>h. None)\<rparr>))
       (Some userE) sample_create sample_db
     = (Inl (Status 400 ''error fetching deployment transaction''), sample_db)
   \<and> createContractController
       (sample_env_with (sample_client\<lparr>getTransactionReceipt :=
            (\<lambda>h. Some (sample_receipt\<lparr>contractAddress_r := None\<rparr>))\<rparr>))
       (Some userE) sample_create sample_db
     = (Inl (Status 500 ''error fetching deployment transaction''), sample_db)"
proof -
  let ?pcA = "sample_client\<lparr>getTransaction := (\<lambda>h. None)\<rparr>"
  let ?pcB = "sample_client\<lparr>getTransactionReceipt := (\<lambda>h. None)\<rparr>"
  let ?pcC = "sample_client\<lparr>getBlock := (\<lambda>h. None)\<rparr>"
  let ?rc = "sample_receipt\<lparr>contractAddress_r := None\<rparr>"
  let ?pcD = "sample_client\<lparr>getTransactionReceipt := (\<lambda>h. Some ?rc)\<rparr>"
  have a: "supportedChainsPublicClientsMap (sample_env_with ?pcA) (chainId_in sample_create)
             = Some ?pcA"
    by (simp add: sample_env_with_def sample_defs)
  have b: "supportedChainsPublicClientsMap (sample_env_with ?pcB) (chainId_in sample_create)
             = Some ?pcB"
    by (simp add: sample_env_with_def sample_defs)
  have c: "supportedChainsPublicClientsMap (sample_env_with ?pcC) (chainId_in sample_create)
             = Some ?pcC"
    by (simp add: sample_env_with_def sample_defs)
  have d: "supportedChainsPublicClientsMap (sample_env_with ?pcD) (chainId_in sample_create)
             = Some ?pcD"
    by (simp add: sample_env_with_def sample_defs)
  have a': "getTransaction ?pcA (deploymentTxHash_in sample_create) = None"
    by simp
  have b': "getTransaction ?pcB (deploymentTxHash_in sample_create) = Some sample_tx
            \<and> getTransactionReceipt ?pcB (deploymentTxHash_in sample_create) = None"
    by (simp add: sample_client_def sample_create_def)
  have c': "getTransaction ?pcC (deploymentTxHash_in sample_create) = Some sample_tx
            \<and> getTransactionReceipt ?pcC (deploymentTxHash_in sample_create) = Some sample_receipt
            \<and> getBlock ?pcC (blockHash_tx sample_tx) = None"
    by (simp add: sample_client_def sample_create_def)
  have d': "getTransaction ?pcD (deploymentTxHash_in sample_create) = Some sample_tx
            \<and> getTransactionReceipt ?pcD (deploymentTxHash_in sample_create) = Some ?rc
            \<and> getBlock ?pcD (blockHash_tx sample_tx) = Some sample_block
            \<and> \<not> truthy (contractAddress_r ?rc)
            \<and> traceTransaction ?pcD (deploymentTxHash_in sample_create) = None"
    by (simp add: sample_client_def sample_create_def sample_tx_def truthy_def)
  note A = createContract_rpc_failures [OF a, where tx = sample_tx and u = userE
               and d = sample_db and rc = sample_receipt and bl = sample_block]
  note B = createContract_rpc_failures [OF b, where tx = sample_tx and u = userE
               and d = sample_db and rc = sample_receipt and bl = sample_block]
  note C = createContract_rpc_failures [OF c, where tx = sample_tx and u = userE
               and d = sample_db and rc = sample_receipt and bl = sample_block]
  note D = createContract_rpc_failures [OF d, where tx = sample_tx and u = userE
               and d = sample_db and rc = "?rc" and bl = sample_block]
  have 1: "createContractController (sample_env_with ?pcA) (Some userE) sample_create sample_db
             = (Inl (Status 400 ''error fetching deployment transaction''), sample_db)"
    using A [THEN conjunct1] a' by (rule mp)
  have 2: "createContractController (sample_env_with ?pcB) (Some userE) sample_create sample_db
             = (Inl (Status 400 ''error fetching deployment transaction''), sample_db)"
    using B [THEN conjunct2, THEN conjunct1] b' by (rule mp)
  have 3: "createContractController (sample_env_with ?pcC) (Some userE) sample_create sample_db
             = (Inl (Status 400 ''error fetching deployment transaction''), sample_db)"
    using C [THEN conjunct2, THEN conjunct2, THEN conjunct1] c' by (rule mp)
  have 4: "createContractController (sample_env_with ?pcD) (Some userE) sample_create sample_db
             = (Inl (Status 500 ''error fetching deployment transaction''), sample_db)"
    using D [THEN conjunct2, THEN conjunct2, THEN conjunct2] d' by (rule mp)
  show ?thesis
    using 1 2 3 4 by (intro conjI)
qed

section \<open>A signature that does not verify\<close>

text \<open>
  Claim C5. When completeVerification reaches the signature check (the challenge is found
  for the entity, is not EXPIRED, and its chain has a client) and the check returns
  false, the request is rejected with status 400 and the message
  \<^verbatim>\<open>challenge was not completed successfully\<close>, and the store is returned unchanged:
  the challenge keeps its state and so does the contract.
\<close>

theorem completeVerification_bad_signature:
  assumes "\<not> dbFails e GetChallengeByChallengeId"
      and "getChallengeByChallengeId e d (entityId u) (challengeId_in inp) = Some ch"
      and "state_ch ch \<noteq> EXPIRED"
      and "supportedChainsPublicClientsMap e (chainId_ch ch) = Some pc"
      and "verifyMessage pc (address_ch ch) (generateChallenge e (address_ch ch))
             (signature_in inp) = Some False"
  shows "completeVerificationController e (Some u) inp d
           = (Inl (Status 400 ''challenge was not completed successfully''), d)"
  using assms by (simp add: completeVerificationController_def dbCall_def)

theorem completeVerification_bad_signature_witness:
  "\<not> dbFails sample_env GetChallengeByChallengeId
   \<and> getChallengeByChallengeId sample_env sample_db (entityId userE) ''h1'' = Some sample_challenge
   \<and> state_ch sample_challenge \<noteq> EXPIRED
   \<and> supportedChainsPublicClientsMap sample_env (chainId_ch sample_challenge) = Some sample_client
   \<and> verifyMessage sample_client (address_ch sample_challenge)
        (generateChallenge sample_env (address_ch sample_challenge)) ''forged'' = Some False
   \<and> completeVerificationController sample_env (Some userE)
        \<lparr> challengeId_in = ''h1'', signature_in = ''forged'' \<rparr> sample_db
       = (Inl (Status 400 ''challenge was not completed successfully''), sample_db)"
proof -
  let ?inp = "\<lparr> challengeId_in = ''h1'', signature_in = ''forged'' \<rparr>"
  have h1: "\<not> dbFails sample_env GetChallengeByChallengeId"
    by (simp add: sample_defs)
  have h2: "getChallengeByChallengeId sample_env sample_db (entityId userE) (challengeId_in ?inp)
              = Some sample_challenge"
    by (simp add: sample_defs store_defs)
  have h3: "state_ch sample_challenge \<noteq> EXPIRED"
    by (simp add: sample_defs)
  have h4: "supportedChainsPublicClientsMap sample_env (chainId_ch sample_challenge)
              = Some sample_client"
    by (simp add: sample_env_def sample_challenge_def)
  have h5: "verifyMessage sample_client (address_ch sample_challenge)
              (generateChallenge sample_env (address_ch sample_challenge)) (signature_in ?inp)
              = Some False"
    by (simp add: sample_defs)
  show ?thesis
    using completeVerification_bad_signature [OF h1 h2 h3 h4 h5] h1 h2 h3 h4 h5 by simp
qed

section \<open>Resolving the created contract through the trace\<close>

lemma tracedContractAddress_Some:
  "(tracedContractAddress tr = Some a) =
     (\<exists>t c. tr = Some t \<and> calls_tr t = Some [c] \<and> type_call c = ''CREATE2'' \<and> to_call c = a)"
  by (auto simp: tracedContractAddress_def length_Suc_conv split: option.splits)

lemma createContract_store_not_created:
  "(createContract_store e u ca da inp tx rc bl txa d
      = (Inl (Status 400 ''the provided deployment transaction did not create a contract''), d'))
   = (\<not> truthy txa \<and> d' = d)"
  by (auto simp: createContract_store_def truthy_def split: option.splits prod.splits sum.splits)

text \<open>
  Claim C3, as amended. In createContract, when the receipt carries no contract address
  and the trace call itself succeeds, the address is resolved from the trace exactly
  when the trace has one internal call, that call has type CREATE2 and it carries a
  target; the resolved address is that target, and the controller goes on with it. For
  every other trace (null, no call list, zero calls, several calls, one call of another
  type, one CREATE2 call without a target) the request ends with status 400 and the
  message \<^verbatim>\<open>the provided deployment transaction did not create a contract\<close>, and
  with that answer in no other case.
\<close>

theorem createContract_trace_resolution:
  assumes client: "supportedChainsPublicClientsMap e (chainId_in inp) = Some pc"
      and fetch: "fetchDeployment pc (deploymentTxHash_in inp) = Inr (tx, rc, bl)"
      and noaddr: "\<not> truthy (contractAddress_r rc)"
      and traced: "traceTransaction pc (deploymentTxHash_in inp) = Some tr"
  shows "(tracedContractAddress tr = Some a \<longleftrightarrow>
            (\<exists>t c. tr = Some t \<and> calls_tr t = Some [c] \<and> type_call c = ''CREATE2''
                   \<and> to_call c = a))
       \<and> (createContractController e (Some u) inp d
            = createContract_store e u (getAddress e (contractAddress_in inp))
                (getAddress e (deployerAddress_in inp)) inp tx rc bl
                (tracedContractAddress tr) d)
       \<and> (createContractController e (Some u) inp d
            = (Inl (Status 400 ''the provided deployment transaction did not create a contract''), d)
          \<longleftrightarrow> \<not> (\<exists>t c. tr = Some t \<and> calls_tr t = Some [c] \<and> type_call c = ''CREATE2''
                       \<and> to_call c \<noteq> []))"
proof -
  have run: "createContractController e (Some u) inp d
            = createContract_store e u (getAddress e (contractAddress_in inp))
                (getAddress e (deployerAddress_in inp)) inp tx rc bl
                (tracedContractAddress tr) d"
    using client fetch noaddr traced
    by (simp add: createContractController_def resolveTxContractAddress_def Let_def)
  have shape: "truthy (tracedContractAddress tr) \<longleftrightarrow>
          (\<exists>t c. tr = Some t \<and> calls_tr t = Some [c] \<and> type_call c = ''CREATE2''
                 \<and> to_call c \<noteq> [])"
  proof
    assume "truthy (tracedContractAddress tr)"
    then obtain a where a: "tracedContractAddress tr = Some a" "a \<noteq> []"
      by (auto simp: truthy_def split: option.splits)
    then show "\<exists>t c. tr = Some t \<and> calls_tr t = Some [c] \<and> type_call c = ''CREATE2''
                 \<and> to_call c \<noteq> []"
      unfolding tracedContractAddress_Some by blast
  next
    assume "\<exists>t c. tr = Some t \<and> calls_tr t = Some [c] \<and> type_call c = ''CREATE2''
                 \<and> to_call c \<noteq> []"
    then obtain t c where tc: "tr = Some t" "calls_tr t = Some [c]" "type_call c = ''CREATE2''"
                              "to_call c \<noteq> []"
      by blast
    then have "tracedContractAddress tr = Some (to_call c)"
      unfolding tracedContractAddress_Some by blast
    then show "truthy (tracedContractAddress tr)"
      using tc(4) by (simp add: truthy_def)
  qed
  show ?thesis
    using run shape tracedContractAddress_Some [of tr a]
    by (simp add: createContract_store_not_created)
qed

lemma sample_factory_run:
  "supportedChainsPublicClientsMap (sample_env_with (sample_factory_client cs))
       (chainId_in sample_create) = Some (sample_factory_client cs)"
  "fetchDeployment (sample_factory_client cs) (deploymentTxHash_in sample_create)
     = Inr (sample_tx, sample_receipt\<lparr>contractAddress_r := None\<rparr>, sample_block)"
  "\<not> truthy (contractAddress_r (sample_receipt\<lparr>contractAddress_r := None\<rparr>))"
  "traceTransaction (sample_factory_client cs) (deploymentTxHash_in sample_create)
     = Some (Some \<lparr> calls_tr = Some cs \<rparr>)"
  by (simp_all add: sample_defs sample_factory_client_def fetchDeployment_def truthy_def)

theorem createContract_trace_resolution_witness:
  "tracedContractAddress (Some \<lparr> calls_tr = Some [create2_call] \<rparr>) = Some ''0xabc''
   \<and> createContractController (sample_env_with (sample_factory_client [create2_call]))
        (Some userE) sample_create empty_db
      \<noteq> (Inl (Status 400 ''the provided deployment transaction did not create a contract''),
           empty_db)
   \<and> createContractController (sample_env_with (sample_factory_client []))
        (Some userE) sample_create empty_db
      = (Inl (Status 400 ''the provided deployment transaction did not create a contract''),
           empty_db)
   \<and> createContractController (sample_env_with (sample_factory_client [create2_call, create2_call]))
        (Some userE) sample_create empty_db
      = (Inl (Status 400 ''the provided deployment transaction did not create a contract''),
           empty_db)
   \<and> createContractController (sample_env_with (sample_factory_client [plain_call]))
        (Some userE) sample_create empty_db
      = (Inl (Status 400 ''the provided deployment transaction did not create a contract''),
           empty_db)
   \<and> createContractController (sample_env_with (sample_factory_client [targetless_call]))
        (Some userE) sample_create empty_db
      = (Inl (Status 400 ''the provided deployment transaction did not create a contract''),
           empty_db)"
proof -
  note R = createContract_trace_resolution [OF sample_factory_run,
             where u = userE and d = empty_db and a = "''0xabc''"]
  have 1: "tracedContractAddress (Some \<lparr> calls_tr = Some [create2_call] \<rparr>) = Some ''0xabc''"
    using R [of "[create2_call]", THEN conjunct1]
    by (simp add: create2_call_def)
  have 2: "createContractController (sample_env_with (sample_factory_client [create2_call]))
        (Some userE) sample_create empty_db
      \<noteq> (Inl (Status 400 ''the provided deployment transaction did not create a contract''),
           empty_db)"
    using R [of "[create2_call]", THEN conjunct2, THEN conjunct2]
    by (simp add: create2_call_def)
  have 3: "createContractController (sample_env_with (sample_factory_client []))
        (Some userE) sample_create empty_db
      = (Inl (Status 400 ''the provided deployment transaction did not create a contract''),
           empty_db)"
    using R [of "[]", THEN conjunct2, THEN conjunct2]
    by simp
  have 4: "createContractController (sample_env_with (sample_factory_client [create2_call, create2_call]))
        (Some userE) sample_create empty_db
      = (Inl (Status 400 ''the provided deployment transaction did not create a contract''),
           empty_db)"
    using R [of "[create2_call, create2_call]", THEN conjunct2, THEN conjunct2]
    by simp
  have 5: "createContractController (sample_env_with (sample_factory_client [plain_call]))
        (Some userE) sample_create empty_db
      = (Inl (Status 400 ''the provided deployment transaction did not create a contract''),
           empty_db)"
    using R [of "[plain_call]", THEN conjunct2, THEN conjunct2]
    by (simp add: plain_call_def)
  have 6: "createContractController (sample_env_with (sample_factory_client [targetless_call]))
        (Some userE) sample_create empty_db
      = (Inl (Status 400 ''the provided deployment transaction did not create a contract''),
           empty_db)"
    using R [of "[targetless_call]", THEN conjunct2, THEN conjunct2]
    by (simp add: targetless_call_def)
  show ?thesis using 1 2 3 4 5 6 by (intro conjI)
qed

text \<open>
  The claim as stated fails for a trace whose single call has type CREATE2 and no
  target: no address is resolved and the request is rejected.
\<close>

theorem createContract_create2_without_target_counterexample:
  "length [targetless_call] = 1
   \<and> type_call targetless_call = ''CREATE2''
   \<and> createContractController (sample_env_with (sample_factory_client [targetless_call]))
        (Some userE) sample_create empty_db
      = (Inl (Status 400 ''the provided deployment transaction did not create a contract''),
           empty_db)"
  by (simp add: controller_defs sample_defs store_defs)

section \<open>Atomicity of completing a verification\<close>

lemma completeChallenge_snd:
  "snd (completeChallenge d eid cid) =
     d\<lparr>challenges := map (\<lambda>c. if entityId_ch c = eid \<and> id_ch c = cid
                                then c\<lparr>state_ch := COMPLETED\<rparr> else c) (challenges d)\<rparr>"
  by (simp add: completeChallenge_def update_where_def)

lemma verifyContract_snd:
  "snd (verifyContract e d eid cid) =
     d\<lparr>contracts := map (\<lambda>c. if entityId_c c = eid \<and> id_c c = cid
                               then c\<lparr>state_c := VERIFIED, updatedAt_c := now e\<rparr> else c)
                         (contracts d)\<rparr>"
  by (simp add: verifyContract_def update_where_def)

lemma completeVerification_tx_ok:
  "\<not> dbFails e CompleteChallenge \<Longrightarrow> \<not> dbFails e VerifyContract \<Longrightarrow>
   completeVerification_tx e u cid ch d
     = (Inr (), bothApplied e d (entityId u) cid (contractId_ch ch))"
  by (simp add: completeVerification_tx_def dbCall_def bothApplied_def split: prod.splits)

lemma completeVerification_tx_fail:
  "dbFails e CompleteChallenge \<or> dbFails e VerifyContract \<Longrightarrow>
   \<exists>err d1. completeVerification_tx e u cid ch d = (Inl err, d1)"
  by (auto simp: completeVerification_tx_def dbCall_def split: prod.splits)

lemma completeVerification_unit:
  "transaction_db e (completeVerification_tx e u cid ch) d =
     (if dbFails e CompleteChallenge \<or> dbFails e VerifyContract \<or> dbFails e TransactionCommit
      then (Inl DbError, d)
      else (Inr (), bothApplied e d (entityId u) cid (contractId_ch ch)))"
  by (auto simp: transaction_db_def completeVerification_tx_def dbCall_def bothApplied_def
           split: prod.splits)

lemma bothApplied_eq:
  "bothApplied e d eid cid k =
     d\<lparr>contracts := map (\<lambda>c. if entityId_c c = eid \<and> id_c c = k
                               then c\<lparr>state_c := VERIFIED, updatedAt_c := now e\<rparr> else c)
                         (contracts d),
       challenges := map (\<lambda>c. if entityId_ch c = eid \<and> id_ch c = cid
                                then c\<lparr>state_ch := COMPLETED\<rparr> else c)
                          (challenges d)\<rparr>"
  by (simp add: bothApplied_def verifyContract_snd completeChallenge_snd)

lemma bothApplied_challenges_map:
  "challenges (bothApplied e d eid cid k) =
     map (\<lambda>c. if entityId_ch c = eid \<and> id_ch c = cid then c\<lparr>state_ch := COMPLETED\<rparr> else c)
         (challenges d)"
  by (simp add: bothApplied_eq)

lemma bothApplied_challenges:
  "list_all (\<lambda>c. entityId_ch c = eid \<and> id_ch c = cid \<longrightarrow> state_ch c = COMPLETED)
     (challenges (bothApplied e d eid cid k))"
proof -
  have "list_all (\<lambda>c. entityId_ch c = eid \<and> id_ch c = cid \<longrightarrow> state_ch c = COMPLETED)
          (map (\<lambda>c. if entityId_ch c = eid \<and> id_ch c = cid
                     then c\<lparr>state_ch := COMPLETED\<rparr> else c) xs)" for xs
    by (induction xs) auto
  then show ?thesis
    by (simp only: bothApplied_challenges_map)
qed

text \<open>The row behind a challenge that the lookup returns.\<close>

lemma getChallengeByChallengeId_row:
  assumes "getChallengeByChallengeId e d eid cid = Some ch"
  shows "\<exists>c0\<in>set (challenges d). id_ch c0 = cid \<and> entityId_ch c0 = eid
            \<and> id_ch ch = cid \<and> entityId_ch ch = eid
            \<and> contractId_ch ch = contractId_ch c0 \<and> address_ch ch = address_ch c0
            \<and> chainId_ch ch = chainId_ch c0"
proof -
  from assms obtain c0 where
    c0: "first (filter (\<lambda>c. id_ch c = cid \<and> entityId_ch c = eid) (challenges d)) = Some c0"
    and ch: "ch = (if now e < createdAt_ch c0 + challengeValidity e
                      \<and> state_ch c0 \<noteq> COMPLETED \<and> state_ch c0 \<noteq> EXPIRED
                   then c0 else c0\<lparr>state_ch := EXPIRED\<rparr>)"
    unfolding getChallengeByChallengeId_def by blast
  from first_filter_SomeD [OF c0]
  have "c0 \<in> set (challenges d)" "id_ch c0 = cid" "entityId_ch c0 = eid"
    by simp_all
  then show ?thesis using ch by auto
qed

lemma bothApplied_challenge_row:
  assumes "getChallengeByChallengeId e d eid cid = Some ch"
  shows "list_ex (\<lambda>c. entityId_ch c = eid \<and> id_ch c = cid \<and> state_ch c = COMPLETED)
           (challenges (bothApplied e' d eid cid k))"
proof -
  let ?h = "\<lambda>c. if entityId_ch c = eid \<and> id_ch c = cid then c\<lparr>state_ch := COMPLETED\<rparr> else c"
  from getChallengeByChallengeId_row [OF assms] obtain c0 where
    c0: "c0 \<in> set (challenges d)" "id_ch c0 = cid" "entityId_ch c0 = eid"
    by blast
  have "?h c0 \<in> set (map ?h (challenges d))"
    using c0(1) by (simp only: set_map) (rule imageI)
  then have mem: "?h c0 \<in> set (challenges (bothApplied e' d eid cid k))"
    by (simp only: bothApplied_challenges_map)
  have "entityId_ch (?h c0) = eid \<and> id_ch (?h c0) = cid \<and> state_ch (?h c0) = COMPLETED"
    using c0(2,3) by simp
  with mem show ?thesis
    unfolding list_ex_iff by blast
qed

lemma bothApplied_contracts_map:
  "contracts (bothApplied e d eid cid k) =
     map (\<lambda>c. if entityId_c c = eid \<and> id_c c = k
               then c\<lparr>state_c := VERIFIED, updatedAt_c := now e\<rparr> else c) (contracts d)"
  by (simp add: bothApplied_def verifyContract_snd completeChallenge_snd)

lemma bothApplied_contracts:
  "list_all (\<lambda>c. entityId_c c = eid \<and> id_c c = k \<longrightarrow> state_c c = VERIFIED)
     (contracts (bothApplied e d eid cid k))"
proof -
  have "list_all (\<lambda>c. entityId_c c = eid \<and> id_c c = k \<longrightarrow> state_c c = VERIFIED)
          (map (\<lambda>c. if entityId_c c = eid \<and> id_c c = k
                     then c\<lparr>state_c := VERIFIED, updatedAt_c := now e\<rparr> else c) xs)" for xs
    by (induction xs) auto
  then show ?thesis
    by (simp only: bothApplied_contracts_map)
qed

lemma bothApplied_active:
  assumes "list_ex (\<lambda>c. entityId_c c = eid \<and> id_c c = k) (contracts d)"
  shows "\<exists>c'. getActiveContract (bothApplied e d eid cid k) k eid = Some c'
            \<and> state_c c' = VERIFIED"
proof -
  let ?d' = "bothApplied e d eid cid k"
  let ?g = "\<lambda>c. if entityId_c c = eid \<and> id_c c = k
               then c\<lparr>state_c := VERIFIED, updatedAt_c := now e\<rparr> else c"
  let ?P = "\<lambda>c. id_c c = k \<and> entityId_c c = eid \<and> state_c c \<noteq> DELETED"
  from assms obtain c where c: "c \<in> set (contracts d)" "entityId_c c = eid" "id_c c = k"
    unfolding list_ex_iff by blast
  have "?g c \<in> set (map ?g (contracts d))"
    using c(1) by (simp only: set_map) (rule imageI)
  then have mem: "?g c \<in> set (contracts ?d')"
    by (simp only: bothApplied_contracts_map)
  have "?P (?g c)"
    using c(2,3) by simp
  with mem have "\<not> (\<forall>x\<in>set (contracts ?d'). \<not> ?P x)"
    by blast
  then have "first (filter ?P (contracts ?d')) \<noteq> None"
    by (simp add: first_filter_None)
  then obtain c' where c': "first (filter ?P (contracts ?d')) = Some c'"
    by blast
  then have "?P c' \<and> c' \<in> set (contracts ?d')"
    by (rule first_filter_SomeD)
  then have "state_c c' = VERIFIED"
    using bothApplied_contracts [of eid k e d cid] unfolding list_all_iff by blast
  with c' show ?thesis by (simp add: getActiveContract_def)
qed

lemma completeVerification_failure_keeps_store:
  "completeVerificationController e usr inp d = (Inl err, d') \<Longrightarrow> d' = d"
  unfolding completeVerificationController_def completeVerification_unit dbCall_def
  by (simp split: option.splits if_splits sum.splits prod.splits)

text \<open>
  Claim C1. In completeVerification, once the signature check has succeeded, the two
  updates (challenge COMPLETED, contract VERIFIED) run in one database transaction. If
  \<^verbatim>\<open>completeChallenge\<close>, \<^verbatim>\<open>verifyContract\<close> or the commit fails, the answer is
  status 500 and the store is the one before the request, also when the challenge update
  had already been made inside the unit. Otherwise the request succeeds and the store is
  exactly the one before the request with both updates made: the rows of the entity with
  the challenge's id are COMPLETED, the rows of the entity with the challenge's contract
  id are VERIFIED with their update time set, and every other row of every table is as
  it was. So the challenge is stored as COMPLETED and the contract, if the entity has
  such a row, is read back as VERIFIED. No request that ends in an error changes the
  store, so a store with only one of the two updates is never the outcome.
\<close>

theorem completeVerification_atomic:
  assumes found: "\<not> dbFails e GetChallengeByChallengeId"
                 "getChallengeByChallengeId e d (entityId u) (challengeId_in inp) = Some ch"
                 "state_ch ch \<noteq> EXPIRED"
      and client: "supportedChainsPublicClientsMap e (chainId_ch ch) = Some pc"
      and signed: "verifyMessage pc (address_ch ch) (generateChallenge e (address_ch ch))
                     (signature_in inp) = Some True"
  shows "(if dbFails e CompleteChallenge \<or> dbFails e VerifyContract \<or> dbFails e TransactionCommit
          then completeVerificationController e (Some u) inp d
                 = (Inl (Status 500 ''server failed to mark challenge as complete''), d)
          else (\<exists>d'. completeVerificationController e (Some u) inp d = (Inr Success, d')
                 \<and> d' = d\<lparr>contracts :=
                             map (\<lambda>c. if entityId_c c = entityId u \<and> id_c c = contractId_ch ch
                                       then c\<lparr>state_c := VERIFIED, updatedAt_c := now e\<rparr>
                                       else c) (contracts d),
                           challenges :=
                             map (\<lambda>c. if entityId_ch c = entityId u
                                          \<and> id_ch c = challengeId_in inp
                                       then c\<lparr>state_ch := COMPLETED\<rparr> else c)
                                 (challenges d)\<rparr>
                 \<and> list_ex (\<lambda>c. entityId_ch c = entityId u \<and> id_ch c = challengeId_in inp
                                  \<and> state_ch c = COMPLETED) (challenges d')
                 \<and> list_all (\<lambda>c. entityId_ch c = entityId u \<and> id_ch c = challengeId_in inp
                                  \<longrightarrow> state_ch c = COMPLETED) (challenges d')
                 \<and> list_all (\<lambda>c. entityId_c c = entityId u \<and> id_c c = contractId_ch ch
                                  \<longrightarrow> state_c c = VERIFIED) (contracts d')
                 \<and> (list_ex (\<lambda>c. entityId_c c = entityId u \<and> id_c c = contractId_ch ch)
                        (contracts d)
                      \<longrightarrow> (\<exists>c'. getActiveContract d' (contractId_ch ch) (entityId u) = Some c'
                                \<and> state_c c' = VERIFIED))))
       \<and> (\<forall>usr' inp' err d'. completeVerificationController e usr' inp' d = (Inl err, d')
             \<longrightarrow> d' = d)"
proof -
  let ?fault = "dbFails e CompleteChallenge \<or> dbFails e VerifyContract
                  \<or> dbFails e TransactionCommit"
  let ?d' = "bothApplied e d (entityId u) (challengeId_in inp) (contractId_ch ch)"
  have run: "completeVerificationController e (Some u) inp d =
          (case transaction_db e (completeVerification_tx e u (challengeId_in inp) ch) d of
             (Inl err, d') \<Rightarrow> (Inl (Status 500 ''server failed to mark challenge as complete''), d')
           | (Inr r, d') \<Rightarrow> (Inr Success, d'))"
    using found client signed
    by (simp add: completeVerificationController_def dbCall_def)
  have keep: "\<forall>usr' inp' err d'. completeVerificationController e usr' inp' d = (Inl err, d')
             \<longrightarrow> d' = d"
    using completeVerification_failure_keeps_store by blast
  have failing: "completeVerificationController e (Some u) inp d
                 = (Inl (Status 500 ''server failed to mark challenge as complete''), d)"
    if "?fault"
    using run that by (simp add: completeVerification_unit)
  have applied: "\<exists>d'. completeVerificationController e (Some u) inp d = (Inr Success, d')
                 \<and> d' = d\<lparr>contracts :=
                             map (\<lambda>c. if entityId_c c = entityId u \<and> id_c c = contractId_ch ch
                                       then c\<lparr>state_c := VERIFIED, updatedAt_c := now e\<rparr>
                                       else c) (contracts d),
                           challenges :=
                             map (\<lambda>c. if entityId_ch c = entityId u
                                          \<and> id_ch c = challengeId_in inp
                                       then c\<lparr>state_ch := COMPLETED\<rparr> else c)
                                 (challenges d)\<rparr>
                 \<and> list_ex (\<lambda>c. entityId_ch c = entityId u \<and> id_ch c = challengeId_in inp
                                  \<and> state_ch c = COMPLETED) (challenges d')
                 \<and> list_all (\<lambda>c. entityId_ch c = entityId u \<and> id_ch c = challengeId_in inp
                                  \<longrightarrow> state_ch c = COMPLETED) (challenges d')
                 \<and> list_all (\<lambda>c. entityId_c c = entityId u \<and> id_c c = contractId_ch ch
                                  \<longrightarrow> state_c c = VERIFIED) (contracts d')
                 \<and> (list_ex (\<lambda>c. entityId_c c = entityId u \<and> id_c c = contractId_ch ch)
                        (contracts d)
                      \<longrightarrow> (\<exists>c'. getActiveContract d' (contractId_ch ch) (entityId u) = Some c'
                                \<and> state_c c' = VERIFIED))"
    if "\<not> ?fault"
  proof -
    have 1: "completeVerificationController e (Some u) inp d = (Inr Success, ?d')"
      using run that by (simp add: completeVerification_unit)
    have 2: "?d' = d\<lparr>contracts :=
                             map (\<lambda>c. if entityId_c c = entityId u \<and> id_c c = contractId_ch ch
                                       then c\<lparr>state_c := VERIFIED, updatedAt_c := now e\<rparr>
                                       else c) (contracts d),
                           challenges :=
                             map (\<lambda>c. if entityId_ch c = entityId u
                                          \<and> id_ch c = challengeId_in inp
                                       then c\<lparr>state_ch := COMPLETED\<rparr> else c)
                                 (challenges d)\<rparr>"
      by (rule bothApplied_eq)
    have 3: "list_ex (\<lambda>c. entityId_ch c = entityId u \<and> id_ch c = challengeId_in inp
                                  \<and> state_ch c = COMPLETED) (challenges ?d')"
      using found(2) by (rule bothApplied_challenge_row)
    have 4: "list_all (\<lambda>c. entityId_ch c = entityId u \<and> id_ch c = challengeId_in inp
                                  \<longrightarrow> state_ch c = COMPLETED) (challenges ?d')"
      by (rule bothApplied_challenges)
    have 5: "list_all (\<lambda>c. entityId_c c = entityId u \<and> id_c c = contractId_ch ch
                                  \<longrightarrow> state_c c = VERIFIED) (contracts ?d')"
      by (rule bothApplied_contracts)
    have 6: "list_ex (\<lambda>c. entityId_c c = entityId u \<and> id_c c = contractId_ch ch)
                        (contracts d)
                      \<longrightarrow> (\<exists>c'. getActiveContract ?d' (contractId_ch ch) (entityId u) = Some c'
                                \<and> state_c c' = VERIFIED)"
      using bothApplied_active by blast
    show ?thesis
      by (rule exI [of _ ?d']) (rule conjI [OF 1 conjI [OF 2 conjI [OF 3 conjI [OF 4 conjI [OF 5 6]]]]])
  qed
  show ?thesis
  proof (rule conjI [OF _ keep])
    show "if ?fault
          then completeVerificationController e (Some u) inp d
                 = (Inl (Status 500 ''server failed to mark challenge as complete''), d)
          else (\<exists>d'. completeVerificationController e (Some u) inp d = (Inr Success, d')
                 \<and> d' = d\<lparr>contracts :=
                             map (\<lambda>c. if entityId_c c = entityId u \<and> id_c c = contractId_ch ch
                                       then c\<lparr>state_c := VERIFIED, updatedAt_c := now e\<rparr>
                                       else c) (contracts d),
                           challenges :=
                             map (\<lambda>c. if entityId_ch c = entityId u
                                          \<and> id_ch c = challengeId_in inp
                                       then c\<lparr>state_ch := COMPLETED\<rparr> else c)
                                 (challenges d)\<rparr>
                 \<and> list_ex (\<lambda>c. entityId_ch c = entityId u \<and> id_ch c = challengeId_in inp
                                  \<and> state_ch c = COMPLETED) (challenges d')
                 \<and> list_all (\<lambda>c. entityId_ch c = entityId u \<and> id_ch c = challengeId_in inp
                                  \<longrightarrow> state_ch c = COMPLETED) (challenges d')
                 \<and> list_all (\<lambda>c. entityId_c c = entityId u \<and> id_c c = contractId_ch ch
                                  \<longrightarrow> state_c c = VERIFIED) (contracts d')
                 \<and> (list_ex (\<lambda>c. entityId_c c = entityId u \<and> id_c c = contractId_ch ch)
                        (contracts d)
                      \<longrightarrow> (\<exists>c'. getActiveContract d' (contractId_ch ch) (entityId u) = Some c'
                                \<and> state_c c' = VERIFIED)))"
    proof (cases "?fault")
      case True
      show ?thesis unfolding if_P [OF True] by (rule failing [OF True])
    next
      case False
      show ?thesis unfolding if_not_P [OF False] by (rule applied [OF False])
    qed
  qed
qed

theorem completeVerification_atomic_witness:
  "completeVerificationController (sample_env\<lparr>dbFails := (\<lambda>site. site = VerifyContract)\<rparr>)
       (Some userE) \<lparr> challengeId_in = ''h1'', signature_in = ''signed:I own 0xDEF'' \<rparr> sample_db
     = (Inl (Status 500 ''server failed to mark challenge as complete''), sample_db)
   \<and> completeVerificationController sample_env (Some userE)
        \<lparr> challengeId_in = ''h1'', signature_in = ''signed:I own 0xDEF'' \<rparr> sample_db
     = (Inr Success,
        sample_db\<lparr>contracts := [sample_contract\<lparr>state_c := VERIFIED, updatedAt_c := 5000\<rparr>],
                  challenges := [sample_challenge\<lparr>state_ch := COMPLETED\<rparr>]\<rparr>)
   \<and> getActiveContract
        (sample_db\<lparr>contracts := [sample_contract\<lparr>state_c := VERIFIED, updatedAt_c := 5000\<rparr>],
                   challenges := [sample_challenge\<lparr>state_ch := COMPLETED\<rparr>]\<rparr>) ''c1'' ''E''
     = Some (sample_contract\<lparr>state_c := VERIFIED, updatedAt_c := 5000\<rparr>)"
proof -
  let ?inp = "\<lparr> challengeId_in = ''h1'', signature_in = ''signed:I own 0xDEF'' \<rparr>"
  let ?bad = "sample_env\<lparr>dbFails := (\<lambda>site. site = VerifyContract)\<rparr>"
  let ?d1 = "sample_db\<lparr>contracts := [sample_contract\<lparr>state_c := VERIFIED, updatedAt_c := 5000\<rparr>],
                       challenges := [sample_challenge\<lparr>state_ch := COMPLETED\<rparr>]\<rparr>"
  have found1: "getChallengeByChallengeId sample_env sample_db (entityId userE)
                  (challengeId_in ?inp) = Some sample_challenge"
    and found2: "getChallengeByChallengeId ?bad sample_db (entityId userE)
                  (challengeId_in ?inp) = Some sample_challenge"
    by (simp_all add: sample_defs store_defs)
  have pending: "state_ch sample_challenge \<noteq> EXPIRED"
    by (simp add: sample_challenge_def)
  have ok1: "\<not> dbFails sample_env GetChallengeByChallengeId"
    and ok2: "\<not> dbFails ?bad GetChallengeByChallengeId"
    by (simp_all add: sample_env_def)
  have cl1: "supportedChainsPublicClientsMap sample_env (chainId_ch sample_challenge)
               = Some sample_client"
    and cl2: "supportedChainsPublicClientsMap ?bad (chainId_ch sample_challenge)
               = Some sample_client"
    by (simp_all add: sample_env_def sample_challenge_def)
  have sg1: "verifyMessage sample_client (address_ch sample_challenge)
               (generateChallenge sample_env (address_ch sample_challenge)) (signature_in ?inp)
               = Some True"
    and sg2: "verifyMessage sample_client (address_ch sample_challenge)
               (generateChallenge ?bad (address_ch sample_challenge)) (signature_in ?inp)
               = Some True"
    by (simp_all add: sample_env_def sample_client_def sample_challenge_def)
  have fault: "dbFails ?bad CompleteChallenge \<or> dbFails ?bad VerifyContract
                 \<or> dbFails ?bad TransactionCommit"
    by simp
  have nofault: "\<not> (dbFails sample_env CompleteChallenge \<or> dbFails sample_env VerifyContract
                 \<or> dbFails sample_env TransactionCommit)"
    by (simp add: sample_env_def)
  note rollback = completeVerification_atomic [OF ok2 found2 pending cl2 sg2, THEN conjunct1]
  note applied = completeVerification_atomic [OF ok1 found1 pending cl1 sg1, THEN conjunct1]
  have 1: "completeVerificationController ?bad (Some userE) ?inp sample_db
             = (Inl (Status 500 ''server failed to mark challenge as complete''), sample_db)"
    using rollback fault by (simp only: if_True)
  have "\<exists>d'. completeVerificationController sample_env (Some userE) ?inp sample_db
                 = (Inr Success, d')
            \<and> d' = sample_db\<lparr>contracts :=
                       map (\<lambda>c. if entityId_c c = entityId userE
                                    \<and> id_c c = contractId_ch sample_challenge
                                 then c\<lparr>state_c := VERIFIED, updatedAt_c := now sample_env\<rparr>
                                 else c) (contracts sample_db),
                     challenges :=
                       map (\<lambda>c. if entityId_ch c = entityId userE
                                    \<and> id_ch c = challengeId_in ?inp
                                 then c\<lparr>state_ch := COMPLETED\<rparr> else c)
                           (challenges sample_db)\<rparr>"
    using applied nofault by (simp only: if_False) blast
  then have 2: "completeVerificationController sample_env (Some userE) ?inp sample_db
                  = (Inr Success, ?d1)"
    by (simp add: sample_defs)
  have 3: "getActiveContract ?d1 ''c1'' ''E''
             = Some (sample_contract\<lparr>state_c := VERIFIED, updatedAt_c := 5000\<rparr>)"
    by (simp add: sample_defs store_defs)
  show ?thesis using 1 2 3 by (intro conjI)
qed

section \<open>What a registration does to the store\<close>

lemma createContract_tx_success:
  assumes "createContract_tx e u ca da inp tx rc bl d = (Inr r, d')"
  shows "(\<exists>ex. getContractByAddressAndChainId e d ca (chainId_in inp) (entityId u) = Some ex
              \<and> state_c ex = DELETED
              \<and> restoreDeletedContract e d (id_c ex) (appId_in inp)
                   (if hasAlreadyVerifiedDeployer e d (entityId u) da then VERIFIED
                    else NOT_VERIFIED) = (r, d'))
       \<or> (getContractByAddressAndChainId e d ca (chainId_in inp) (entityId u) = None
            \<and> (\<exists>row d1.
                  insertContract e d
                    \<lparr> contractAddress_ic = ca, deploymentTxHash_ic = deploymentTxHash_in inp,
                      deployerAddress_ic = da, chainId_ic = chainId_in inp,
                      appId_ic = appId_in inp,
                      state_ic = (if hasAlreadyVerifiedDeployer e d (entityId u) da
                                  then VERIFIED else NOT_VERIFIED),
                      entityId_ic = entityId u \<rparr> = Inr (row, d1)
                  \<and> r = Some row
                  \<and> d' = snd (insertTransaction e d1
                              (viemContractDeploymentTransactionToDbTransaction rc tx
                                 (entityId u) (chainId_in inp) (id_c row) (timestamp_b bl)))))"
  using assms unfolding createContract_tx_def dbCall_def
  by (simp split: if_splits option.splits sum.splits prod.splits)


lemma createContractController_success:
  assumes "createContractController e (Some u) inp d = (Inr r, d')"
  shows "\<exists>tx rc bl. createContract_tx e u (getAddress e (contractAddress_in inp))
                       (getAddress e (deployerAddress_in inp)) inp tx rc bl d = (Inr r, d')"
  using assms
  unfolding createContractController_def createContract_store_def transaction_db_def Let_def
  by (simp split: if_splits option.splits sum.splits prod.splits) blast+

lemma createContractController_failure:
  "createContractController e usr inp d = (Inl err, d') \<Longrightarrow> d' = d"
  unfolding createContractController_def createContract_store_def transaction_db_def Let_def
  by (simp split: if_splits option.splits sum.splits prod.splits)

lemma insertContract_row:
  assumes "insertContract e d c = Inr (row, d')"
  shows "contractAddress_c row = getAddress e (contractAddress_ic c)
       \<and> deployerAddress_c row = getAddress e (deployerAddress_ic c)
       \<and> entityId_c row = entityId_ic c
       \<and> id_c row = randomContractId e
       \<and> state_c row = state_ic c
       \<and> d' = d\<lparr>contracts := contracts d @ [row]\<rparr>"
  using assms by (auto simp: insertContract_def Let_def split: if_splits)

lemma insertTransaction_contracts:
  "contracts (snd (insertTransaction e d t)) = contracts d"
  by (simp add: insertTransaction_def Let_def)

section \<open>Entity scoping of the contract mutations\<close>

lemma filter_map_untouched:
  "(\<And>x. x \<in> set xs \<Longrightarrow> P x \<Longrightarrow> g x = x) \<Longrightarrow> (\<And>x. x \<in> set xs \<Longrightarrow> P (g x) = P x)
     \<Longrightarrow> filter P (map g xs) = filter P xs"
  by (induction xs) auto

lemma restoreDeletedContract_snd:
  "snd (restoreDeletedContract e d k app st) =
     d\<lparr>contracts := map (\<lambda>c. if id_c c = k
                               then c\<lparr>state_c := st, appId_c := app, updatedAt_c := now e\<rparr>
                               else c) (contracts d)\<rparr>"
  by (simp add: restoreDeletedContract_def update_where_def)

lemma deleteContract_snd:
  "snd (deleteContract e d eid contractId) =
     (case uuidIn e contractId of
        None \<Rightarrow> d
      | Some k \<Rightarrow>
          d\<lparr>contracts := map (\<lambda>c. if entityId_c c = eid \<and> id_c c = k
                                   then c\<lparr>state_c := DELETED, updatedAt_c := now e\<rparr> else c)
                              (contracts d)\<rparr>)"
  by (simp add: deleteContract_run split: option.splits)

lemma verifyContract_scoped:
  "filter (\<lambda>c. entityId_c c \<noteq> eid) (contracts (snd (verifyContract e d eid k)))
     = filter (\<lambda>c. entityId_c c \<noteq> eid) (contracts d)"
  by (simp add: verifyContract_snd filter_map_untouched)

lemma deleteContract_scoped:
  "filter (\<lambda>c. entityId_c c \<noteq> eid) (contracts (snd (deleteContract e d eid k)))
     = filter (\<lambda>c. entityId_c c \<noteq> eid) (contracts d)"
  by (simp add: deleteContract_snd filter_map_untouched split: option.splits)

lemma restoreDeletedContract_by_id:
  "filter (\<lambda>c. id_c c \<noteq> k) (contracts (snd (restoreDeletedContract e d k app st)))
     = filter (\<lambda>c. id_c c \<noteq> k) (contracts d)"
  by (simp add: restoreDeletedContract_snd filter_map_untouched)

lemma distinct_ids_same_row:
  "distinct (map id_c xs) \<Longrightarrow> x \<in> set xs \<Longrightarrow> y \<in> set xs \<Longrightarrow> id_c x = id_c y \<Longrightarrow> x = y"
  by (meson distinct_map inj_onD)

lemma restore_own_row_scoped:
  assumes ids: "distinct (map id_c (contracts d))"
      and ex: "getContractByAddressAndChainId e d a ch eid = Some ex"
  shows "filter (\<lambda>c. entityId_c c \<noteq> eid)
           (contracts (snd (restoreDeletedContract e d (id_c ex) app st)))
         = filter (\<lambda>c. entityId_c c \<noteq> eid) (contracts d)"
proof -
  have own: "entityId_c ex = eid" and mem: "ex \<in> set (contracts d)"
    using first_filter_SomeD [OF ex [unfolded getContractByAddressAndChainId_def]] by simp_all
  have same: "c = ex" if "c \<in> set (contracts d)" "id_c c = id_c ex" for c
    using distinct_ids_same_row [OF ids that(1) mem that(2)] .
  let ?g = "\<lambda>c. if id_c c = id_c ex
                then c\<lparr>state_c := st, appId_c := app, updatedAt_c := now e\<rparr> else c"
  have "filter (\<lambda>c. entityId_c c \<noteq> eid) (map ?g (contracts d))
          = filter (\<lambda>c. entityId_c c \<noteq> eid) (contracts d)"
  proof (rule filter_map_untouched)
    fix x assume "x \<in> set (contracts d)" "entityId_c x \<noteq> eid"
    then have "id_c x \<noteq> id_c ex" using same own by blast
    then show "?g x = x" by simp
  next
    fix x assume "x \<in> set (contracts d)"
    show "(entityId_c (?g x) \<noteq> eid) = (entityId_c x \<noteq> eid)" by simp
  qed
  then show ?thesis
    by (simp add: restoreDeletedContract_snd)
qed

lemma createContract_scoped:
  assumes ids: "distinct (map id_c (contracts d))"
      and run: "createContractController e (Some u) inp d = (r, d')"
  shows "filter (\<lambda>c. entityId_c c \<noteq> entityId u) (contracts d')
         = filter (\<lambda>c. entityId_c c \<noteq> entityId u) (contracts d)"
proof (cases r)
  case (Inl err)
  then show ?thesis using run createContractController_failure by blast
next
  case (Inr res)
  then obtain tx rc bl where
    body: "createContract_tx e u (getAddress e (contractAddress_in inp))
             (getAddress e (deployerAddress_in inp)) inp tx rc bl d = (Inr res, d')"
    using run createContractController_success by blast
  from createContract_tx_success [OF body] show ?thesis
  proof (elim disjE exE conjE)
    fix ex
    assume ex: "getContractByAddressAndChainId e d (getAddress e (contractAddress_in inp))
                  (chainId_in inp) (entityId u) = Some ex"
       and "restoreDeletedContract e d (id_c ex) (appId_in inp)
              (if hasAlreadyVerifiedDeployer e d (entityId u)
                    (getAddress e (deployerAddress_in inp))
               then VERIFIED else NOT_VERIFIED) = (res, d')"
    then have "d' = snd (restoreDeletedContract e d (id_c ex) (appId_in inp)
              (if hasAlreadyVerifiedDeployer e d (entityId u)
                    (getAddress e (deployerAddress_in inp))
               then VERIFIED else NOT_VERIFIED))"
      by simp
    then show ?thesis
      using restore_own_row_scoped [OF ids ex] by simp
  next
    fix row d1
    assume ins: "insertContract e d
                  \<lparr> contractAddress_ic = getAddress e (contractAddress_in inp),
                    deploymentTxHash_ic = deploymentTxHash_in inp,
                    deployerAddress_ic = getAddress e (deployerAddress_in inp),
                    chainId_ic = chainId_in inp, appId_ic = appId_in inp,
                    state_ic = (if hasAlreadyVerifiedDeployer e d (entityId u)
                                     (getAddress e (deployerAddress_in inp))
                                then VERIFIED else NOT_VERIFIED),
                    entityId_ic = entityId u \<rparr> = Inr (row, d1)"
       and d': "d' = snd (insertTransaction e d1
                      (viemContractDeploymentTransactionToDbTransaction rc tx (entityId u)
                         (chainId_in inp) (id_c row) (timestamp_b bl)))"
    from insertContract_row [OF ins]
    have "entityId_c row = entityId u" "d1 = d\<lparr>contracts := contracts d @ [row]\<rparr>"
      by simp_all
    then show ?thesis
      using d' by (simp add: insertTransaction_contracts)
  qed
qed

text \<open>
  Claim C6, as amended. \<^verbatim>\<open>verifyContract\<close> and \<^verbatim>\<open>deleteContract\<close> restrict their
  update to rows of the calling entity: the rows of every other entity are the same
  before and after. \<^verbatim>\<open>restoreDeletedContract\<close> takes no entity id and updates the
  row with the given contract id, whoever owns it: the rows with another id are the same
  before and after. Its only caller, createContract, passes the id of a row it found
  under the caller's entity id, so, ids being unique, a registration by one entity
  leaves the rows of every other entity as they were.
\<close>

theorem contractStore_entity_scoping:
  "filter (\<lambda>c. entityId_c c \<noteq> eid) (contracts (snd (verifyContract e d eid k)))
     = filter (\<lambda>c. entityId_c c \<noteq> eid) (contracts d)
   \<and> filter (\<lambda>c. entityId_c c \<noteq> eid) (contracts (snd (deleteContract e d eid k)))
     = filter (\<lambda>c. entityId_c c \<noteq> eid) (contracts d)
   \<and> filter (\<lambda>c. id_c c \<noteq> k) (contracts (snd (restoreDeletedContract e d k app st)))
     = filter (\<lambda>c. id_c c \<noteq> k) (contracts d)
   \<and> (distinct (map id_c (contracts d)) \<longrightarrow>
        filter (\<lambda>c. entityId_c c \<noteq> entityId u)
            (contracts (snd (createContractController e (Some u) inp d)))
          = filter (\<lambda>c. entityId_c c \<noteq> entityId u) (contracts d))"
proof (intro conjI impI)
  assume "distinct (map id_c (contracts d))"
  moreover have "createContractController e (Some u) inp d
                   = (fst (createContractController e (Some u) inp d),
                      snd (createContractController e (Some u) inp d))"
    by simp
  ultimately show "filter (\<lambda>c. entityId_c c \<noteq> entityId u)
            (contracts (snd (createContractController e (Some u) inp d)))
          = filter (\<lambda>c. entityId_c c \<noteq> entityId u) (contracts d)"
    by (rule createContract_scoped)
qed (rule verifyContract_scoped deleteContract_scoped restoreDeletedContract_by_id)+

theorem contractStore_entity_scoping_witness:
  "distinct (map id_c (contracts deleted_db))
   \<and> fst (createContractController sample_env (Some userE) sample_create deleted_db)
       = Inr (Some (sample_contract\<lparr>state_c := NOT_VERIFIED, appId_c := ''app2'',
                                     updatedAt_c := 5000\<rparr>))
   \<and> filter (\<lambda>c. entityId_c c \<noteq> ''E'')
        (contracts (snd (createContractController sample_env (Some userE) sample_create
                           deleted_db)))
       = [other_contract]"
proof -
  have ids: "distinct (map id_c (contracts deleted_db))"
    by (simp add: deleted_db_def other_contract_def sample_contract_def)
  have res: "fst (createContractController sample_env (Some userE) sample_create deleted_db)
       = Inr (Some (sample_contract\<lparr>state_c := NOT_VERIFIED, appId_c := ''app2'',
                                     updatedAt_c := 5000\<rparr>))"
    by (simp add: controller_defs deleted_db_def other_contract_def sample_defs store_defs)
  have others: "filter (\<lambda>c. entityId_c c \<noteq> entityId userE) (contracts deleted_db)
                  = [other_contract]"
    by (simp add: deleted_db_def other_contract_def sample_contract_def userE_def)
  have E: "entityId userE = ''E''"
    by (simp add: userE_def)
  note scoped = contractStore_entity_scoping [where d = deleted_db and u = userE
      and e = sample_env and inp = sample_create, THEN conjunct2, THEN conjunct2,
      THEN conjunct2, THEN mp, OF ids]
  have "filter (\<lambda>c. entityId_c c \<noteq> ''E'')
        (contracts (snd (createContractController sample_env (Some userE) sample_create
                           deleted_db)))
       = [other_contract]"
    using scoped others unfolding E by simp
  with ids res show ?thesis by (intro conjI)
qed

text \<open>
  The claim as stated fails for \<^verbatim>\<open>restoreDeletedContract\<close>: called with the id of
  a contract of entity \<open>E\<close>, it changes that row, although the rows in question are
  those of an entity other than \<open>F\<close>.
\<close>

theorem restoreDeletedContract_unscoped_counterexample:
  "entityId_c sample_contract \<noteq> entityId userF
   \<and> filter (\<lambda>c. entityId_c c \<noteq> entityId userF)
        (contracts (snd (restoreDeletedContract sample_env sample_db ''c1'' ''appF'' VERIFIED)))
      \<noteq> filter (\<lambda>c. entityId_c c \<noteq> entityId userF) (contracts sample_db)"
  by (simp add: sample_defs store_defs)

section \<open>Which challenges completeVerification rejects\<close>

lemma completeVerification_signed:
  assumes "\<not> dbFails e GetChallengeByChallengeId"
      and "getChallengeByChallengeId e d (entityId u) (challengeId_in inp) = Some ch"
      and "state_ch ch \<noteq> EXPIRED"
      and "supportedChainsPublicClientsMap e (chainId_ch ch) = Some pc"
      and "verifyMessage pc (address_ch ch) (generateChallenge e (address_ch ch))
             (signature_in inp) = Some True"
  shows "completeVerificationController e (Some u) inp d =
          (if dbFails e CompleteChallenge \<or> dbFails e VerifyContract
                \<or> dbFails e TransactionCommit
           then (Inl (Status 500 ''server failed to mark challenge as complete''), d)
           else (Inr Success,
                 bothApplied e d (entityId u) (challengeId_in inp) (contractId_ch ch)))"
  using assms
  by (simp add: completeVerificationController_def dbCall_def completeVerification_unit)

lemma completeVerification_expired_iff:
  assumes "\<not> dbFails e GetChallengeByChallengeId"
  shows "(completeVerificationController e (Some u) inp d
            = (Inl (Status 400 ''challenge does not exist or is expired''), d))
       = (case getChallengeByChallengeId e d (entityId u) (challengeId_in inp) of
            None \<Rightarrow> True | Some ch \<Rightarrow> state_ch ch = EXPIRED)"
  using assms
  unfolding completeVerificationController_def dbCall_def completeVerification_unit
  by (simp split: option.splits)

text \<open>What the lookup reads as absent or expired, in terms of the stored row.\<close>

lemma getChallengeByChallengeId_expired:
  "(case getChallengeByChallengeId e d eid cid of
      None \<Rightarrow> True | Some ch \<Rightarrow> state_ch ch = EXPIRED)
   = (case first (filter (\<lambda>c. id_ch c = cid \<and> entityId_ch c = eid) (challenges d)) of
        None \<Rightarrow> True
      | Some c \<Rightarrow> state_ch c = COMPLETED \<or> state_ch c = EXPIRED
                   \<or> createdAt_ch c + challengeValidity e \<le> now e)"
  by (auto simp: getChallengeByChallengeId_def split: option.splits)

lemma completeVerification_success_applied:
  "completeVerificationController e (Some u) inp d = (Inr s, d') \<Longrightarrow>
     \<exists>k. d' = bothApplied e d (entityId u) (challengeId_in inp) k"
  unfolding completeVerificationController_def completeVerification_unit dbCall_def
  by (auto split: option.splits if_splits sum.splits prod.splits)

lemma completed_row_first:
  assumes "list_all (\<lambda>c. entityId_ch c = eid \<and> id_ch c = cid \<longrightarrow> state_ch c = COMPLETED) xs"
  shows "case first (filter (\<lambda>c. id_ch c = cid \<and> entityId_ch c = eid) xs) of
           None \<Rightarrow> True
         | Some c \<Rightarrow> state_ch c = COMPLETED \<or> state_ch c = EXPIRED
                      \<or> createdAt_ch c + w \<le> t"
proof (cases "first (filter (\<lambda>c. id_ch c = cid \<and> entityId_ch c = eid) xs)")
  case None
  then show ?thesis by simp
next
  case (Some c)
  from first_filter_SomeD [OF this]
  have "c \<in> set xs" "id_ch c = cid" "entityId_ch c = eid"
    by simp_all
  then have "state_ch c = COMPLETED"
    using assms unfolding list_all_iff by blast
  then show ?thesis using Some by simp
qed

lemma completeVerification_lookup_fails:
  "dbFails e GetChallengeByChallengeId \<Longrightarrow>
     completeVerificationController e (Some u) inp d
       = (Inl (Status 500 ''error fetching challenge''), d)"
  by (simp add: completeVerificationController_def dbCall_def)

text \<open>
  Claim C4. When the challenge lookup itself does not fail, completeVerification answers
  status 400 \<^verbatim>\<open>challenge does not exist or is expired\<close> exactly when the entity has
  no challenge with the given id or the stored challenge is COMPLETED, is EXPIRED or has
  outlived the validity window. After a successful completeVerification, every later
  call of the entity with the same challenge id is rejected, whatever the signature and
  the time, and leaves the store as it is: the same challenge is not completed twice.
\<close>

theorem completeVerification_rejects_completed:
  "(\<not> dbFails e GetChallengeByChallengeId \<longrightarrow>
      (completeVerificationController e (Some u) inp d
         = (Inl (Status 400 ''challenge does not exist or is expired''), d)
       \<longleftrightarrow> (case first (filter (\<lambda>c. id_ch c = challengeId_in inp \<and> entityId_ch c = entityId u)
                             (challenges d)) of
              None \<Rightarrow> True
            | Some c \<Rightarrow> state_ch c = COMPLETED \<or> state_ch c = EXPIRED
                         \<or> createdAt_ch c + challengeValidity e \<le> now e)))
   \<and> (completeVerificationController e0 (Some u) inp0 d0 = (Inr Success, d)
        \<and> challengeId_in inp = challengeId_in inp0 \<longrightarrow>
        completeVerificationController e (Some u) inp d
          = (Inl (if dbFails e GetChallengeByChallengeId
                  then Status 500 ''error fetching challenge''
                  else Status 400 ''challenge does not exist or is expired''), d))"
proof -
  have p1: "\<not> dbFails e GetChallengeByChallengeId \<longrightarrow>
      (completeVerificationController e (Some u) inp d
         = (Inl (Status 400 ''challenge does not exist or is expired''), d)
       \<longleftrightarrow> (case first (filter (\<lambda>c. id_ch c = challengeId_in inp \<and> entityId_ch c = entityId u)
                             (challenges d)) of
              None \<Rightarrow> True
            | Some c \<Rightarrow> state_ch c = COMPLETED \<or> state_ch c = EXPIRED
                         \<or> createdAt_ch c + challengeValidity e \<le> now e))"
  proof
    assume ok: "\<not> dbFails e GetChallengeByChallengeId"
    show "completeVerificationController e (Some u) inp d
         = (Inl (Status 400 ''challenge does not exist or is expired''), d)
       \<longleftrightarrow> (case first (filter (\<lambda>c. id_ch c = challengeId_in inp \<and> entityId_ch c = entityId u)
                             (challenges d)) of
              None \<Rightarrow> True
            | Some c \<Rightarrow> state_ch c = COMPLETED \<or> state_ch c = EXPIRED
                         \<or> createdAt_ch c + challengeValidity e \<le> now e)"
      using completeVerification_expired_iff [OF ok, of u inp d]
      unfolding getChallengeByChallengeId_expired .
  qed
  have p2: "completeVerificationController e0 (Some u) inp0 d0 = (Inr Success, d)
        \<and> challengeId_in inp = challengeId_in inp0 \<longrightarrow>
        completeVerificationController e (Some u) inp d
          = (Inl (if dbFails e GetChallengeByChallengeId
                  then Status 500 ''error fetching challenge''
                  else Status 400 ''challenge does not exist or is expired''), d)"
  proof
    assume h: "completeVerificationController e0 (Some u) inp0 d0 = (Inr Success, d)
        \<and> challengeId_in inp = challengeId_in inp0"
    then obtain k where d: "d = bothApplied e0 d0 (entityId u) (challengeId_in inp) k"
      using completeVerification_success_applied [of e0 u inp0 d0 Success d] by auto
    have "list_all (\<lambda>c. entityId_ch c = entityId u \<and> id_ch c = challengeId_in inp
                         \<longrightarrow> state_ch c = COMPLETED) (challenges d)"
      unfolding d by (rule bothApplied_challenges)
    then have gone: "case first (filter (\<lambda>c. id_ch c = challengeId_in inp
                                           \<and> entityId_ch c = entityId u) (challenges d)) of
              None \<Rightarrow> True
            | Some c \<Rightarrow> state_ch c = COMPLETED \<or> state_ch c = EXPIRED
                         \<or> createdAt_ch c + challengeValidity e \<le> now e"
      by (rule completed_row_first)
    show "completeVerificationController e (Some u) inp d
          = (Inl (if dbFails e GetChallengeByChallengeId
                  then Status 500 ''error fetching challenge''
                  else Status 400 ''challenge does not exist or is expired''), d)"
    proof (cases "dbFails e GetChallengeByChallengeId")
      case True
      then show ?thesis by (simp add: completeVerification_lookup_fails)
    next
      case False
      have "completeVerificationController e (Some u) inp d
                   = (Inl (Status 400 ''challenge does not exist or is expired''), d)"
        using completeVerification_expired_iff [OF False, of u inp d] gone
        unfolding getChallengeByChallengeId_expired by (rule iffD2)
      then show ?thesis using False by simp
    qed
  qed
  show ?thesis
    by (rule conjI [OF p1 p2])
qed

theorem completeVerification_rejects_completed_witness:
  "completeVerificationController sample_env (Some userE) twice_input sample_db
     = (Inr Success,
        sample_db\<lparr>contracts := [sample_contract\<lparr>state_c := VERIFIED, updatedAt_c := 5000\<rparr>],
                  challenges := [sample_challenge\<lparr>state_ch := COMPLETED\<rparr>]\<rparr>)
   \<and> completeVerificationController later_env (Some userE) twice_input
        (sample_db\<lparr>contracts := [sample_contract\<lparr>state_c := VERIFIED, updatedAt_c := 5000\<rparr>],
                   challenges := [sample_challenge\<lparr>state_ch := COMPLETED\<rparr>]\<rparr>)
     = (Inl (Status 400 ''challenge does not exist or is expired''),
        sample_db\<lparr>contracts := [sample_contract\<lparr>state_c := VERIFIED, updatedAt_c := 5000\<rparr>],
                  challenges := [sample_challenge\<lparr>state_ch := COMPLETED\<rparr>]\<rparr>)
   \<and> completeVerificationController sample_env (Some userE) twice_input completed_db
     = (Inl (Status 400 ''challenge does not exist or is expired''), completed_db)"
proof -
  let ?d1 = "sample_db\<lparr>contracts := [sample_contract\<lparr>state_c := VERIFIED, updatedAt_c := 5000\<rparr>],
                       challenges := [sample_challenge\<lparr>state_ch := COMPLETED\<rparr>]\<rparr>"
  have 1: "completeVerificationController sample_env (Some userE) twice_input sample_db
             = (Inr Success, ?d1)"
    by (simp add: controller_defs twice_input_def sample_defs store_defs)
  have again: "completeVerificationController sample_env (Some userE) twice_input sample_db
                 = (Inr Success, ?d1)
               \<and> challengeId_in twice_input = challengeId_in twice_input"
    using 1 by simp
  have ok: "\<not> dbFails later_env GetChallengeByChallengeId"
           "\<not> dbFails sample_env GetChallengeByChallengeId"
    by (simp_all add: later_env_def sample_env_def)
  have "completeVerificationController later_env (Some userE) twice_input ?d1
          = (Inl (if dbFails later_env GetChallengeByChallengeId
                  then Status 500 ''error fetching challenge''
                  else Status 400 ''challenge does not exist or is expired''), ?d1)"
    using completeVerification_rejects_completed
            [where ?e0.0 = sample_env and u = userE and ?inp0.0 = twice_input
               and ?d0.0 = sample_db and d = ?d1 and inp = twice_input and e = later_env,
             THEN conjunct2] again
    by (rule mp)
  then have 2: "completeVerificationController later_env (Some userE) twice_input ?d1
                  = (Inl (Status 400 ''challenge does not exist or is expired''), ?d1)"
    using ok(1) by simp
  have stored: "case first (filter (\<lambda>c. id_ch c = challengeId_in twice_input
                                        \<and> entityId_ch c = entityId userE)
                               (challenges completed_db)) of
              None \<Rightarrow> True
            | Some c \<Rightarrow> state_ch c = COMPLETED \<or> state_ch c = EXPIRED
                         \<or> createdAt_ch c + challengeValidity sample_env \<le> now sample_env"
    by (simp add: completed_db_def twice_input_def sample_defs first_def)
  have 3: "completeVerificationController sample_env (Some userE) twice_input completed_db
             = (Inl (Status 400 ''challenge does not exist or is expired''), completed_db)"
    using completeVerification_rejects_completed
            [where e = sample_env and u = userE and inp = twice_input and d = completed_db,
             THEN conjunct1, THEN mp, OF ok(2)] stored
    by (rule iffD2)
  show ?thesis using 1 2 3 by (intro conjI)
qed

section \<open>Idempotence of startVerification\<close>

lemma first_filter_stronger:
  "first (filter P xs) = Some x \<Longrightarrow> (\<And>y. y \<in> set xs \<Longrightarrow> Q y \<Longrightarrow> P y) \<Longrightarrow> Q x
     \<Longrightarrow> first (filter Q xs) = Some x"
proof (induction xs)
  case Nil
  then show ?case by (simp add: first_def)
next
  case (Cons y ys)
  show ?case
  proof (cases "P y")
    case True
    then have "x = y" using Cons.prems(1) by (simp add: first_def)
    then show ?thesis using Cons.prems(3) by (simp add: first_def)
  next
    case False
    then have "\<not> Q y" using Cons.prems(2) by auto
    moreover have "first (filter P ys) = Some x" using Cons.prems(1) False by simp
    ultimately show ?thesis using Cons.IH Cons.prems(2,3) by simp
  qed
qed

lemma first_filter_appended:
  assumes "first (filter P xs) = None" "\<And>y. y \<in> set xs \<Longrightarrow> Q y \<Longrightarrow> P y" "Q r"
  shows "first (filter Q (xs @ [r])) = Some r"
proof -
  have "\<forall>y\<in>set xs. \<not> Q y"
    using assms(1,2) unfolding first_filter_None by blast
  then have "filter Q xs = []"
    by (simp add: filter_empty_conv)
  then show ?thesis using assms(3) by (simp add: first_def)
qed

lemma startVerification_run:
  assumes "\<not> dbFails e GetActiveContract"
      and "getActiveContract d contractId (entityId u) = Some c"
      and "state_c c \<noteq> VERIFIED"
      and "\<not> dbFails e GetUnexpiredChallenge"
  shows "startVerificationController e (Some u) contractId d =
           (case getUnexpiredChallenge e d (entityId u) contractId of
              Some ch \<Rightarrow> (Inr (ch, generateChallenge e (deployerAddress_c c)), d)
            | None \<Rightarrow>
                if dbFails e InsertChallenge
                then (Inl (Status 500 ''error creating challenge''), d)
                else (Inr (issuedChallenge e u contractId c,
                           generateChallenge e (deployerAddress_c c)),
                      d\<lparr>challenges := challenges d @ [issuedChallenge e u contractId c]\<rparr>))"
  using assms
  by (simp add: startVerificationController_def dbCall_def insertChallenge_def Let_def
        issuedChallenge_def split: option.splits)

lemma startVerification_changes_store:
  "snd (startVerificationController e usr contractId d) \<noteq> d \<Longrightarrow>
     \<exists>u. usr = Some u \<and> getUnexpiredChallenge e d (entityId u) contractId = None"
  unfolding startVerificationController_def dbCall_def Let_def
  by (simp split: option.splits if_splits sum.splits prod.splits)


lemma startVerification_again:
  assumes a1: "\<not> dbFails e GetActiveContract"
      and a2: "getActiveContract d contractId (entityId u) = Some c"
      and a3: "state_c c \<noteq> VERIFIED"
      and a4: "\<not> dbFails e GetUnexpiredChallenge"
      and run1: "startVerificationController e (Some u) contractId d = (Inr (ch1, m1), d1)"
      and later: "now e \<le> now e2"
      and unexpired: "now e2 < createdAt_ch ch1 + challengeValidity e2"
      and window: "challengeValidity e2 = challengeValidity e"
      and b1: "\<not> dbFails e2 GetActiveContract"
      and b4: "\<not> dbFails e2 GetUnexpiredChallenge"
  shows "startVerificationController e2 (Some u) contractId d1
           = (Inr (ch1, generateChallenge e2 (deployerAddress_c c)), d1)"
proof -
  let ?P = "\<lambda>x. entityId_ch x = entityId u \<and> contractId_ch x = contractId
                \<and> now e < createdAt_ch x + challengeValidity e
                \<and> state_ch x \<noteq> COMPLETED \<and> state_ch x \<noteq> EXPIRED"
  let ?Q = "\<lambda>x. entityId_ch x = entityId u \<and> contractId_ch x = contractId
                \<and> now e2 < createdAt_ch x + challengeValidity e2
                \<and> state_ch x \<noteq> COMPLETED \<and> state_ch x \<noteq> EXPIRED"
  have QP: "\<And>y. ?Q y \<Longrightarrow> ?P y"
    using later window by auto
  have found2: "getUnexpiredChallenge e2 d1 (entityId u) contractId = Some ch1
                \<and> contracts d1 = contracts d"
  proof (cases "getUnexpiredChallenge e d (entityId u) contractId")
    case (Some ch)
    then have eq: "ch1 = ch" "d1 = d"
      using run1 startVerification_run [OF a1 a2 a3 a4] by simp_all
    have P: "first (filter ?P (challenges d)) = Some ch1"
      using Some eq by (simp add: getUnexpiredChallenge_def)
    then have "?P ch1" using first_filter_SomeD by fast
    then have Q: "?Q ch1" using unexpired by simp
    have "first (filter ?Q (challenges d)) = Some ch1"
      by (rule first_filter_stronger [of ?P "challenges d" ch1 ?Q, OF P QP Q])
    then show ?thesis using eq by (simp add: getUnexpiredChallenge_def)
  next
    case None
    then have ins: "\<not> dbFails e InsertChallenge"
      and eq: "ch1 = issuedChallenge e u contractId c"
              "d1 = d\<lparr>challenges := challenges d @ [issuedChallenge e u contractId c]\<rparr>"
      using run1 startVerification_run [OF a1 a2 a3 a4] by (auto split: if_splits)
    have P: "first (filter ?P (challenges d)) = None"
      using None by (simp add: getUnexpiredChallenge_def)
    have Q: "?Q ch1"
      using unexpired eq(1) by (simp add: issuedChallenge_def)
    have "first (filter ?Q (challenges d @ [ch1])) = Some ch1"
      by (rule first_filter_appended [of ?P "challenges d" ?Q ch1, OF P QP Q])
    then show ?thesis using eq by (simp add: getUnexpiredChallenge_def)
  qed
  then have "getActiveContract d1 contractId (entityId u) = Some c"
    using a2 by (simp add: getActiveContract_def)
  from startVerification_run [OF b1 this a3 b4] found2 show ?thesis by simp
qed

text \<open>
  Claim C7. For an active, not yet verified contract of the entity (and no failing
  lookup): if an unexpired challenge exists, startVerification returns that challenge
  with its id and leaves the store unchanged; if none exists, it inserts one new PENDING
  challenge bound to the contract's deployer address and chain and returns it. A second
  request made before the returned challenge expires returns the same challenge and
  inserts nothing. Whatever the request, the store changes only when no unexpired
  challenge exists.
\<close>

theorem startVerification_idempotent:
  assumes "\<not> dbFails e GetActiveContract"
      and "getActiveContract d contractId (entityId u) = Some c"
      and "state_c c \<noteq> VERIFIED"
      and "\<not> dbFails e GetUnexpiredChallenge"
  shows "(getUnexpiredChallenge e d (entityId u) contractId = Some ch \<longrightarrow>
            startVerificationController e (Some u) contractId d
              = (Inr (ch, generateChallenge e (deployerAddress_c c)), d))
       \<and> (getUnexpiredChallenge e d (entityId u) contractId = None
            \<and> \<not> dbFails e InsertChallenge \<longrightarrow>
            startVerificationController e (Some u) contractId d
              = (Inr (issuedChallenge e u contractId c,
                      generateChallenge e (deployerAddress_c c)),
                 d\<lparr>challenges := challenges d @ [issuedChallenge e u contractId c]\<rparr>))
       \<and> (startVerificationController e (Some u) contractId d = (Inr (ch1, m1), d1)
            \<and> now e \<le> now e2 \<and> now e2 < createdAt_ch ch1 + challengeValidity e2
            \<and> challengeValidity e2 = challengeValidity e
            \<and> \<not> dbFails e2 GetActiveContract \<and> \<not> dbFails e2 GetUnexpiredChallenge \<longrightarrow>
            startVerificationController e2 (Some u) contractId d1
              = (Inr (ch1, generateChallenge e2 (deployerAddress_c c)), d1))
       \<and> (snd (startVerificationController e usr' contractId' d) \<noteq> d \<longrightarrow>
            (\<exists>u'. usr' = Some u'
                  \<and> getUnexpiredChallenge e d (entityId u') contractId' = None))"
proof (intro conjI impI)
  assume "getUnexpiredChallenge e d (entityId u) contractId = Some ch"
  then show "startVerificationController e (Some u) contractId d
              = (Inr (ch, generateChallenge e (deployerAddress_c c)), d)"
    using startVerification_run [OF assms] by simp
next
  assume "getUnexpiredChallenge e d (entityId u) contractId = None
            \<and> \<not> dbFails e InsertChallenge"
  then show "startVerificationController e (Some u) contractId d
              = (Inr (issuedChallenge e u contractId c,
                      generateChallenge e (deployerAddress_c c)),
                 d\<lparr>challenges := challenges d @ [issuedChallenge e u contractId c]\<rparr>)"
    using startVerification_run [OF assms] by simp
next
  assume "startVerificationController e (Some u) contractId d = (Inr (ch1, m1), d1)
            \<and> now e \<le> now e2 \<and> now e2 < createdAt_ch ch1 + challengeValidity e2
            \<and> challengeValidity e2 = challengeValidity e
            \<and> \<not> dbFails e2 GetActiveContract \<and> \<not> dbFails e2 GetUnexpiredChallenge"
  then show "startVerificationController e2 (Some u) contractId d1
              = (Inr (ch1, generateChallenge e2 (deployerAddress_c c)), d1)"
    using startVerification_again [OF assms] by blast
next
  assume "snd (startVerificationController e usr' contractId' d) \<noteq> d"
  then show "\<exists>u'. usr' = Some u'
                  \<and> getUnexpiredChallenge e d (entityId u') contractId' = None"
    by (rule startVerification_changes_store)
qed

theorem startVerification_idempotent_witness:
  "startVerificationController sample_env (Some userE) ''c1'' sample_db
     = (Inr (sample_challenge, ''I own 0xDEF''), sample_db)
   \<and> startVerificationController sample_env (Some userE) ''c1'' (sample_db\<lparr>challenges := []\<rparr>)
     = (Inr (issuedChallenge sample_env userE ''c1'' sample_contract, ''I own 0xDEF''),
        sample_db\<lparr>challenges := [issuedChallenge sample_env userE ''c1'' sample_contract]\<rparr>)
   \<and> startVerificationController later_env (Some userE) ''c1''
        (sample_db\<lparr>challenges := [issuedChallenge sample_env userE ''c1'' sample_contract]\<rparr>)
     = (Inr (issuedChallenge sample_env userE ''c1'' sample_contract, ''I own 0xDEF''),
        sample_db\<lparr>challenges := [issuedChallenge sample_env userE ''c1'' sample_contract]\<rparr>)"
proof -
  let ?d0 = "sample_db\<lparr>challenges := []\<rparr>"
  let ?new = "issuedChallenge sample_env userE ''c1'' sample_contract"
  let ?d1 = "sample_db\<lparr>challenges := [?new]\<rparr>"
  have ok: "\<not> dbFails sample_env GetActiveContract" "\<not> dbFails sample_env GetUnexpiredChallenge"
    by (simp_all add: sample_env_def)
  have c: "getActiveContract sample_db ''c1'' (entityId userE) = Some sample_contract"
    and c0: "getActiveContract ?d0 ''c1'' (entityId userE) = Some sample_contract"
    by (simp_all add: sample_defs store_defs)
  have nv: "state_c sample_contract \<noteq> VERIFIED"
    by (simp add: sample_contract_def)
  have msg: "generateChallenge sample_env (deployerAddress_c sample_contract) = ''I own 0xDEF''"
            "generateChallenge later_env (deployerAddress_c sample_contract) = ''I own 0xDEF''"
    by (simp_all add: later_env_def sample_env_def sample_contract_def)
  have pending: "getUnexpiredChallenge sample_env sample_db (entityId userE) ''c1''
                   = Some sample_challenge"
    by (simp add: sample_defs store_defs)
  have vacant: "getUnexpiredChallenge sample_env ?d0 (entityId userE) ''c1'' = None
                   \<and> \<not> dbFails sample_env InsertChallenge"
    by (simp add: sample_defs store_defs)
  have 1: "startVerificationController sample_env (Some userE) ''c1'' sample_db
             = (Inr (sample_challenge, ''I own 0xDEF''), sample_db)"
    using startVerification_idempotent [OF ok(1) c nv ok(2), THEN conjunct1, THEN mp, OF pending]
    unfolding msg .
  have 2: "startVerificationController sample_env (Some userE) ''c1'' ?d0
             = (Inr (?new, ''I own 0xDEF''), ?d1)"
  proof -
    note T = startVerification_idempotent [OF ok(1) c0 nv ok(2), THEN conjunct2, THEN conjunct1]
    have "startVerificationController sample_env (Some userE) ''c1'' ?d0
             = (Inr (?new, generateChallenge sample_env (deployerAddress_c sample_contract)),
                ?d0\<lparr>challenges := challenges ?d0 @ [?new]\<rparr>)"
      using T vacant by (rule mp)
    then show ?thesis unfolding msg by simp
  qed
  have again: "startVerificationController sample_env (Some userE) ''c1'' ?d0
                 = (Inr (?new, ''I own 0xDEF''), ?d1)
            \<and> now sample_env \<le> now later_env
            \<and> now later_env < createdAt_ch ?new + challengeValidity later_env
            \<and> challengeValidity later_env = challengeValidity sample_env
            \<and> \<not> dbFails later_env GetActiveContract
            \<and> \<not> dbFails later_env GetUnexpiredChallenge"
    using 2 by (simp add: later_env_def sample_env_def issuedChallenge_def)
  have 3: "startVerificationController later_env (Some userE) ''c1'' ?d1
             = (Inr (?new, ''I own 0xDEF''), ?d1)"
    using startVerification_idempotent [OF ok(1) c0 nv ok(2), THEN conjunct2, THEN conjunct2,
            THEN conjunct1, THEN mp, OF again]
    unfolding msg .
  show ?thesis using 1 2 3 by (intro conjI)
qed

section \<open>Checksum normalisation of the stored addresses\<close>

lemma distinct_filter_key:
  "distinct (map f xs) \<Longrightarrow> x \<in> set xs \<Longrightarrow> filter (\<lambda>y. f y = f x) xs = [x]"
proof (induction xs)
  case Nil
  then show ?case by simp
next
  case (Cons y ys)
  show ?case
  proof (cases "x = y")
    case True
    have "\<forall>z\<in>set ys. f z \<noteq> f y" using Cons.prems(1) by (auto simp: image_iff)
    then have "filter (\<lambda>z. f z = f y) ys = []" by (simp add: filter_empty_conv)
    then show ?thesis using True by simp
  next
    case False
    then have "x \<in> set ys" using Cons.prems(2) by simp
    moreover have "f y \<noteq> f x" using Cons.prems(1) calculation by (auto simp: image_iff)
    ultimately show ?thesis using Cons.IH Cons.prems(1) by simp
  qed
qed

lemma restoreDeletedContract_row:
  assumes ids: "distinct (map id_c (contracts d))"
      and mem: "ex \<in> set (contracts d)"
      and run: "restoreDeletedContract e d (id_c ex) app st = (r, d')"
  shows "r = Some (ex\<lparr>state_c := st, appId_c := app, updatedAt_c := now e\<rparr>)
       \<and> ex\<lparr>state_c := st, appId_c := app, updatedAt_c := now e\<rparr> \<in> set (contracts d')"
proof -
  let ?upd = "\<lambda>c. c\<lparr>state_c := st, appId_c := app, updatedAt_c := now e\<rparr>"
  have only: "filter (\<lambda>c. id_c c = id_c ex) (contracts d) = [ex]"
    using ids mem by (rule distinct_filter_key)
  have r: "r = Some (?upd ex)"
    using run only by (simp add: restoreDeletedContract_def update_where_def first_def)
  let ?g = "\<lambda>c. if id_c c = id_c ex then ?upd c else c"
  have "d' = snd (restoreDeletedContract e d (id_c ex) app st)"
    using run by simp
  then have rows: "contracts d' = map ?g (contracts d)"
    by (simp add: restoreDeletedContract_snd)
  have "?g ex \<in> set (map ?g (contracts d))"
    using mem by (simp only: set_map) (rule imageI)
  then have "?g ex \<in> set (contracts d')"
    by (simp only: rows)
  then have "?upd ex \<in> set (contracts d')"
    by simp
  with r show ?thesis by simp
qed

lemma getContractByAddressAndChainId_normalises:
  "getContractByAddressAndChainId e d a ch eid = Some r \<Longrightarrow>
     contractAddress_c r = getAddress e a \<and> r \<in> set (contracts d)"
  unfolding getContractByAddressAndChainId_def
  by (drule first_filter_SomeD) simp

lemma registration_row:
  assumes idem: "\<And>a. getAddress e (getAddress e a) = getAddress e a"
      and ids: "distinct (map id_c (contracts d))"
      and run: "createContractController e (Some u) inp d = (Inr (Some row), d')"
  shows "row \<in> set (contracts d')
       \<and> contractAddress_c row = getAddress e (contractAddress_in inp)
       \<and> (getContractByAddressAndChainId e d (contractAddress_in inp) (chainId_in inp)
             (entityId u) = None \<longrightarrow>
            contracts d' = contracts d @ [row]
            \<and> deployerAddress_c row = getAddress e (deployerAddress_in inp))"
proof -
  obtain tx rc bl where
    body: "createContract_tx e u (getAddress e (contractAddress_in inp))
             (getAddress e (deployerAddress_in inp)) inp tx rc bl d = (Inr (Some row), d')"
    using run createContractController_success by blast
  have same: "getContractByAddressAndChainId e d (getAddress e (contractAddress_in inp)) ch eid
              = getContractByAddressAndChainId e d (contractAddress_in inp) ch eid" for ch eid
    by (simp add: getContractByAddressAndChainId_def idem)
  from createContract_tx_success [OF body] show ?thesis
  proof (elim disjE exE conjE)
    fix ex
    assume ex: "getContractByAddressAndChainId e d (getAddress e (contractAddress_in inp))
                  (chainId_in inp) (entityId u) = Some ex"
       and res: "restoreDeletedContract e d (id_c ex) (appId_in inp)
              (if hasAlreadyVerifiedDeployer e d (entityId u)
                    (getAddress e (deployerAddress_in inp))
               then VERIFIED else NOT_VERIFIED) = (Some row, d')"
    have exn: "contractAddress_c ex = getAddress e (contractAddress_in inp)"
          "ex \<in> set (contracts d)"
      using getContractByAddressAndChainId_normalises [OF ex] idem by simp_all
    from restoreDeletedContract_row [OF ids exn(2) res] exn(1) ex same
    show ?thesis by auto
  next
    fix r1 d1
    assume none: "getContractByAddressAndChainId e d (getAddress e (contractAddress_in inp))
                  (chainId_in inp) (entityId u) = None"
       and ins: "insertContract e d
                  \<lparr> contractAddress_ic = getAddress e (contractAddress_in inp),
                    deploymentTxHash_ic = deploymentTxHash_in inp,
                    deployerAddress_ic = getAddress e (deployerAddress_in inp),
                    chainId_ic = chainId_in inp, appId_ic = appId_in inp,
                    state_ic = (if hasAlreadyVerifiedDeployer e d (entityId u)
                                     (getAddress e (deployerAddress_in inp))
                                then VERIFIED else NOT_VERIFIED),
                    entityId_ic = entityId u \<rparr> = Inr (r1, d1)"
       and r1: "Some row = Some r1"
       and d': "d' = snd (insertTransaction e d1
                      (viemContractDeploymentTransactionToDbTransaction rc tx (entityId u)
                         (chainId_in inp) (id_c r1) (timestamp_b bl)))"
    from insertContract_row [OF ins] r1
    have "contractAddress_c row = getAddress e (contractAddress_in inp)"
         "deployerAddress_c row = getAddress e (deployerAddress_in inp)"
         "d1 = d\<lparr>contracts := contracts d @ [row]\<rparr>"
      by (simp_all add: idem)
    then show ?thesis
      using d' by (simp add: insertTransaction_contracts)
  qed
qed


lemma registration_restored_row:
  assumes idem: "\<And>a. getAddress e (getAddress e a) = getAddress e a"
      and ids: "distinct (map id_c (contracts d))"
      and run: "createContractController e (Some u) inp d = (Inr (Some row), d')"
      and ex: "getContractByAddressAndChainId e d (contractAddress_in inp) (chainId_in inp)
                 (entityId u) = Some ex"
  shows "row = ex\<lparr>state_c := (if hasAlreadyVerifiedDeployer e d (entityId u)
                                   (getAddress e (deployerAddress_in inp))
                              then VERIFIED else NOT_VERIFIED),
                  appId_c := appId_in inp, updatedAt_c := now e\<rparr>"
proof -
  obtain tx rc bl where
    body: "createContract_tx e u (getAddress e (contractAddress_in inp))
             (getAddress e (deployerAddress_in inp)) inp tx rc bl d = (Inr (Some row), d')"
    using run createContractController_success by blast
  have same: "getContractByAddressAndChainId e d (getAddress e (contractAddress_in inp))
                (chainId_in inp) (entityId u) = Some ex"
    using ex by (simp add: getContractByAddressAndChainId_def idem)
  from createContract_tx_success [OF body] show ?thesis
  proof (elim disjE exE conjE)
    fix ex'
    assume "getContractByAddressAndChainId e d (getAddress e (contractAddress_in inp))
              (chainId_in inp) (entityId u) = Some ex'"
       and res: "restoreDeletedContract e d (id_c ex') (appId_in inp)
              (if hasAlreadyVerifiedDeployer e d (entityId u)
                    (getAddress e (deployerAddress_in inp))
               then VERIFIED else NOT_VERIFIED) = (Some row, d')"
    then have eq: "ex' = ex" using same by simp
    have mem: "ex \<in> set (contracts d)"
      using getContractByAddressAndChainId_normalises [OF ex] by simp
    from restoreDeletedContract_row [OF ids mem res [unfolded eq]]
    show ?thesis by simp
  next
    assume "getContractByAddressAndChainId e d (getAddress e (contractAddress_in inp))
              (chainId_in inp) (entityId u) = None"
    then show ?thesis using same by simp
  qed
qed

lemma upper_hex_idem: "upper_hex (upper_hex c) = upper_hex c"
  by (simp add: upper_hex_def)

lemma sample_getAddress_idem:
  "getAddress sample_env (getAddress sample_env a) = getAddress sample_env a"
  by (simp add: sample_env_def sample_getAddress_def upper_hex_idem)

text \<open>
  Claim C8, as amended. \<^verbatim>\<open>getAddress\<close> is idempotent (a checksum address is its own
  checksum form). \<^verbatim>\<open>insertContract\<close> stores the checksum form of both addresses of
  its argument. Every successful registration returns a stored row whose contract
  address is the checksum form of the input, whatever the input's casing; when the
  registration inserts a row (no row exists for the entity, chain and address), the
  stored deployer address is the checksum form of the input as well. A registration
  that restores a deleted row returns that row with its state, app and update time
  set, so it keeps the deployer address and the deployment hash stored in that row.
  \<^verbatim>\<open>getContractByAddressAndChainId\<close> compares with the checksum form of the queried
  address, so two queries with the same checksum form give the same result.
\<close>

theorem registration_stores_checksum_addresses:
  assumes idem: "\<And>a. getAddress e (getAddress e a) = getAddress e a"
  shows "(insertContract e d c = Inr (row, d') \<longrightarrow>
            contractAddress_c row = getAddress e (contractAddress_ic c)
            \<and> deployerAddress_c row = getAddress e (deployerAddress_ic c)
            \<and> contracts d' = contracts d @ [row])
       \<and> (distinct (map id_c (contracts d))
            \<and> createContractController e (Some u) inp d = (Inr (Some row2), d2) \<longrightarrow>
            row2 \<in> set (contracts d2)
            \<and> contractAddress_c row2 = getAddress e (contractAddress_in inp)
            \<and> (getContractByAddressAndChainId e d (contractAddress_in inp) (chainId_in inp)
                  (entityId u) = None \<longrightarrow>
                 contracts d2 = contracts d @ [row2]
                 \<and> deployerAddress_c row2 = getAddress e (deployerAddress_in inp)))
       \<and> (getContractByAddressAndChainId e d a ch eid = Some r \<longrightarrow>
            contractAddress_c r = getAddress e a)
       \<and> (getAddress e a = getAddress e b \<longrightarrow>
            getContractByAddressAndChainId e d a ch eid
              = getContractByAddressAndChainId e d b ch eid)
       \<and> (distinct (map id_c (contracts d))
            \<and> createContractController e (Some u) inp d = (Inr (Some row2), d2)
            \<and> getContractByAddressAndChainId e d (contractAddress_in inp) (chainId_in inp)
                 (entityId u) = Some ex \<longrightarrow>
            row2 = ex\<lparr>state_c := (if hasAlreadyVerifiedDeployer e d (entityId u)
                                       (getAddress e (deployerAddress_in inp))
                                  then VERIFIED else NOT_VERIFIED),
                      appId_c := appId_in inp, updatedAt_c := now e\<rparr>
            \<and> deployerAddress_c row2 = deployerAddress_c ex
            \<and> deploymentTxHash_c row2 = deploymentTxHash_c ex)"
proof -
  have p1: "insertContract e d c = Inr (row, d') \<longrightarrow>
            contractAddress_c row = getAddress e (contractAddress_ic c)
            \<and> deployerAddress_c row = getAddress e (deployerAddress_ic c)
            \<and> contracts d' = contracts d @ [row]"
  proof
    assume "insertContract e d c = Inr (row, d')"
    from insertContract_row [OF this]
    show "contractAddress_c row = getAddress e (contractAddress_ic c)
            \<and> deployerAddress_c row = getAddress e (deployerAddress_ic c)
            \<and> contracts d' = contracts d @ [row]"
      by simp
  qed
  have p2: "distinct (map id_c (contracts d))
            \<and> createContractController e (Some u) inp d = (Inr (Some row2), d2) \<longrightarrow>
            row2 \<in> set (contracts d2)
            \<and> contractAddress_c row2 = getAddress e (contractAddress_in inp)
            \<and> (getContractByAddressAndChainId e d (contractAddress_in inp) (chainId_in inp)
                  (entityId u) = None \<longrightarrow>
                 contracts d2 = contracts d @ [row2]
                 \<and> deployerAddress_c row2 = getAddress e (deployerAddress_in inp))"
  proof
    assume "distinct (map id_c (contracts d))
            \<and> createContractController e (Some u) inp d = (Inr (Some row2), d2)"
    then have ids: "distinct (map id_c (contracts d))"
      and run: "createContractController e (Some u) inp d = (Inr (Some row2), d2)"
      by simp_all
    show "row2 \<in> set (contracts d2)
            \<and> contractAddress_c row2 = getAddress e (contractAddress_in inp)
            \<and> (getContractByAddressAndChainId e d (contractAddress_in inp) (chainId_in inp)
                  (entityId u) = None \<longrightarrow>
                 contracts d2 = contracts d @ [row2]
                 \<and> deployerAddress_c row2 = getAddress e (deployerAddress_in inp))"
      using idem ids run by (rule registration_row)
  qed
  have p3: "getContractByAddressAndChainId e d a ch eid = Some r \<longrightarrow>
            contractAddress_c r = getAddress e a"
    using getContractByAddressAndChainId_normalises by blast
  have p4: "getAddress e a = getAddress e b \<longrightarrow>
            getContractByAddressAndChainId e d a ch eid
              = getContractByAddressAndChainId e d b ch eid"
    by (simp add: getContractByAddressAndChainId_def)
  have p5: "distinct (map id_c (contracts d))
            \<and> createContractController e (Some u) inp d = (Inr (Some row2), d2)
            \<and> getContractByAddressAndChainId e d (contractAddress_in inp) (chainId_in inp)
                 (entityId u) = Some ex \<longrightarrow>
            row2 = ex\<lparr>state_c := (if hasAlreadyVerifiedDeployer e d (entityId u)
                                       (getAddress e (deployerAddress_in inp))
                                  then VERIFIED else NOT_VERIFIED),
                      appId_c := appId_in inp, updatedAt_c := now e\<rparr>
            \<and> deployerAddress_c row2 = deployerAddress_c ex
            \<and> deploymentTxHash_c row2 = deploymentTxHash_c ex"
  proof
    assume "distinct (map id_c (contracts d))
            \<and> createContractController e (Some u) inp d = (Inr (Some row2), d2)
            \<and> getContractByAddressAndChainId e d (contractAddress_in inp) (chainId_in inp)
                 (entityId u) = Some ex"
    then have ids: "distinct (map id_c (contracts d))"
      and run: "createContractController e (Some u) inp d = (Inr (Some row2), d2)"
      and ex: "getContractByAddressAndChainId e d (contractAddress_in inp) (chainId_in inp)
                 (entityId u) = Some ex"
      by simp_all
    have row: "row2 = ex\<lparr>state_c := (if hasAlreadyVerifiedDeployer e d (entityId u)
                                       (getAddress e (deployerAddress_in inp))
                                  then VERIFIED else NOT_VERIFIED),
                      appId_c := appId_in inp, updatedAt_c := now e\<rparr>"
      using idem ids run ex by (rule registration_restored_row)
    have "deployerAddress_c row2 = deployerAddress_c ex"
         "deploymentTxHash_c row2 = deploymentTxHash_c ex"
      by (simp_all add: row)
    with row show "row2 = ex\<lparr>state_c := (if hasAlreadyVerifiedDeployer e d (entityId u)
                                       (getAddress e (deployerAddress_in inp))
                                  then VERIFIED else NOT_VERIFIED),
                      appId_c := appId_in inp, updatedAt_c := now e\<rparr>
            \<and> deployerAddress_c row2 = deployerAddress_c ex
            \<and> deploymentTxHash_c row2 = deploymentTxHash_c ex"
      by (intro conjI)
  qed
  show ?thesis
    by (rule conjI [OF p1 conjI [OF p2 conjI [OF p3 conjI [OF p4 p5]]]])

qed

theorem registration_stores_checksum_addresses_witness:
  "createContractController sample_env (Some userE) sample_create empty_db
     = (Inr (Some registered_contract), registered_db)
   \<and> contracts registered_db = contracts empty_db @ [registered_contract]
   \<and> contractAddress_c registered_contract = getAddress sample_env ''0xabc''
   \<and> deployerAddress_c registered_contract = getAddress sample_env ''0xdef''
   \<and> getAddress sample_env ''0xabc'' = getAddress sample_env ''0xAbC''
   \<and> getContractByAddressAndChainId sample_env sample_db ''0xabc'' 10 ''E''
       = getContractByAddressAndChainId sample_env sample_db ''0xAbC'' 10 ''E''"
proof -
  have run: "createContractController sample_env (Some userE) sample_create empty_db
               = (Inr (Some registered_contract), registered_db)"
    by (simp add: controller_defs registered_contract_def registered_db_def sample_defs
          store_defs)
  have ids: "distinct (map id_c (contracts empty_db))"
    by (simp add: empty_db_def)
  have fresh: "getContractByAddressAndChainId sample_env empty_db
                 (contractAddress_in sample_create) (chainId_in sample_create)
                 (entityId userE) = None"
    by (simp add: empty_db_def store_defs)
  have inp: "contractAddress_in sample_create = ''0xabc''"
            "deployerAddress_in sample_create = ''0xdef''"
    by (simp_all add: sample_create_def)
  have casing: "getAddress sample_env ''0xabc'' = getAddress sample_env ''0xAbC''"
    by (simp add: sample_env_def sample_getAddress_def upper_hex_def)
  note T = registration_stores_checksum_addresses [OF sample_getAddress_idem]
  have stored: "registered_contract \<in> set (contracts registered_db)
            \<and> contractAddress_c registered_contract
                = getAddress sample_env (contractAddress_in sample_create)
            \<and> (getContractByAddressAndChainId sample_env empty_db
                  (contractAddress_in sample_create) (chainId_in sample_create)
                  (entityId userE) = None \<longrightarrow>
                 contracts registered_db = contracts empty_db @ [registered_contract]
                 \<and> deployerAddress_c registered_contract
                     = getAddress sample_env (deployerAddress_in sample_create))"
    using T [where d = empty_db and u = userE and inp = sample_create
               and ?row2.0 = registered_contract and ?d2.0 = registered_db,
             THEN conjunct2, THEN conjunct1] ids run
    by blast
  have lookup: "getContractByAddressAndChainId sample_env sample_db ''0xabc'' 10 ''E''
       = getContractByAddressAndChainId sample_env sample_db ''0xAbC'' 10 ''E''"
    using T [where d = sample_db and a = "''0xabc''" and b = "''0xAbC''" and ch = 10
               and eid = "''E''",
             THEN conjunct2, THEN conjunct2, THEN conjunct2] casing
    by blast
  show ?thesis
    using run stored fresh casing lookup unfolding inp by blast
qed

text \<open>
  The claim as stated fails for a registration that restores a deleted row: the contract
  \<open>0xABC\<close>, first registered with deployer \<open>0xDEF\<close> and then deleted, is registered
  again from a deployment by \<open>0xfee\<close>; the registration succeeds and the stored
  deployer address is still \<open>0xDEF\<close>.
\<close>

theorem registration_restore_keeps_deployer_counterexample:
  "fst (createContractController (sample_env_with redeploy_client) (Some userE)
          redeploy_create deleted_db)
     = Inr (Some (sample_contract\<lparr>state_c := NOT_VERIFIED, appId_c := ''app2'',
                                   updatedAt_c := 5000\<rparr>))
   \<and> deployerAddress_c (sample_contract\<lparr>state_c := NOT_VERIFIED, appId_c := ''app2'',
                                         updatedAt_c := 5000\<rparr>)
      \<noteq> getAddress (sample_env_with redeploy_client) (deployerAddress_in redeploy_create)"
  by (simp add: controller_defs redeploy_client_def redeploy_create_def sample_defs store_defs)

section \<open>Registering a contract that already exists\<close>

text \<open>
  Claim C2, at a failing input. Entity \<open>E\<close> registers \<open>0xabc\<close> on chain 10 while
  it has an active row for \<open>0xABC\<close> on that chain. The body of the transaction raises
  status 400 \<^verbatim>\<open>contract already exists\<close>, but the \<^verbatim>\<open>catch\<close> on the transaction
  turns every error of the unit into status 500 \<^verbatim>\<open>error creating contract\<close>, which
  is what the controller answers.
\<close>

theorem createContract_duplicate_answer:
  "fst (createContract_tx sample_env userE (getAddress sample_env ''0xabc'')
          (getAddress sample_env ''0xdef'') sample_create sample_tx sample_receipt
          sample_block sample_db)
     = Inl (Status 400 ''contract already exists'')
   \<and> createContractController sample_env (Some userE) sample_create sample_db
     = (Inl (Status 500 ''error creating contract''), sample_db)"
  by (simp add: controller_defs sample_defs store_defs)

section \<open>The challenge table stays linked to the contract table\<close>

text \<open>
  Every controller keeps the challenge table linked: contract rows are never removed and
  never change their id or entity, and startVerification issues a challenge only for a
  contract row it has read for the entity. On a linked store a successful
  completeVerification therefore always has a contract to verify: the challenge is
  stored as COMPLETED and its contract is read back as VERIFIED.
\<close>

lemma linked_iff:
  "linked d = (\<forall>ch\<in>set (challenges d). \<exists>c\<in>set (contracts d).
                 entityId_c c = entityId_ch ch \<and> id_c c = contractId_ch ch)"
  by (simp add: linked_def list_all_iff list_ex_iff)

lemma linked_found:
  assumes "linked d" "getChallengeByChallengeId e d eid cid = Some ch"
  shows "list_ex (\<lambda>c. entityId_c c = eid \<and> id_c c = contractId_ch ch) (contracts d)"
proof -
  from getChallengeByChallengeId_row [OF assms(2)] obtain c0 where
    "c0 \<in> set (challenges d)" "entityId_ch c0 = eid" "contractId_ch ch = contractId_ch c0"
    by blast
  then show ?thesis
    using assms(1) unfolding linked_iff list_ex_iff by force
qed

lemma linked_step:
  assumes "linked d"
      and keep: "\<And>c. c \<in> set (contracts d) \<Longrightarrow>
                  \<exists>c'\<in>set (contracts d'). entityId_c c' = entityId_c c \<and> id_c c' = id_c c"
      and new: "\<And>ch. ch \<in> set (challenges d') \<Longrightarrow>
                  (\<exists>ch0\<in>set (challenges d). entityId_ch ch0 = entityId_ch ch
                                               \<and> contractId_ch ch0 = contractId_ch ch)
                  \<or> (\<exists>c\<in>set (contracts d). entityId_c c = entityId_ch ch
                                              \<and> id_c c = contractId_ch ch)"
  shows "linked d'"
  unfolding linked_iff
proof
  fix ch assume "ch \<in> set (challenges d')"
  from new [OF this]
  have "\<exists>c\<in>set (contracts d). entityId_c c = entityId_ch ch \<and> id_c c = contractId_ch ch"
    using assms(1) unfolding linked_iff by metis
  then obtain c where c: "c \<in> set (contracts d)" "entityId_c c = entityId_ch ch"
                         "id_c c = contractId_ch ch"
    by blast
  from keep [OF c(1)] c(2,3)
  show "\<exists>c\<in>set (contracts d'). entityId_c c = entityId_ch ch \<and> id_c c = contractId_ch ch"
    by auto
qed

lemma keep_map:
  assumes "\<And>c. entityId_c (g c) = entityId_c c \<and> id_c (g c) = id_c c"
      and "c \<in> set xs"
  shows "\<exists>c'\<in>set (map g xs). entityId_c c' = entityId_c c \<and> id_c c' = id_c c"
proof
  show "g c \<in> set (map g xs)" using assms(2) by (simp only: set_map) (rule imageI)
  show "entityId_c (g c) = entityId_c c \<and> id_c (g c) = id_c c" using assms(1) .
qed

lemma keep_append:
  assumes "c \<in> set xs"
  shows "\<exists>c'\<in>set (xs @ ys). entityId_c c' = entityId_c c \<and> id_c c' = id_c c"
  using assms by auto

lemma old_challenge_map:
  assumes "\<And>c. entityId_ch (g c) = entityId_ch c \<and> contractId_ch (g c) = contractId_ch c"
      and "ch \<in> set (map g xs)"
  shows "\<exists>ch0\<in>set xs. entityId_ch ch0 = entityId_ch ch \<and> contractId_ch ch0 = contractId_ch ch"
proof -
  from assms(2) obtain x where "x \<in> set xs" "ch = g x" by auto
  then show ?thesis using assms(1) by auto
qed

lemma linked_deleteContract:
  assumes "linked d"
  shows "linked (snd (deleteContractController e usr contractId d))"
proof (cases "\<exists>u k. usr = Some u \<and> uuidIn e contractId = Some k \<and> \<not> dbFails e DeleteContract")
  case False
  have "snd (deleteContractController e usr contractId d) = d"
  proof (cases usr)
    case None
    then show ?thesis by (simp add: deleteContractController_def)
  next
    case (Some a)
    then show ?thesis
      using False by (auto simp: deleteContractController_run split: option.splits)
  qed
  then show ?thesis using assms by simp
next
  case True
  then obtain u k where u: "usr = Some u" "uuidIn e contractId = Some k"
                           "\<not> dbFails e DeleteContract"
    by blast
  let ?g = "\<lambda>c. if entityId_c c = entityId u \<and> id_c c = k
               then c\<lparr>state_c := DELETED, updatedAt_c := now e\<rparr> else c"
  have d': "snd (deleteContractController e usr contractId d)
              = d\<lparr>contracts := map ?g (contracts d)\<rparr>"
    using u by (simp add: deleteContractController_run)
  show ?thesis
    unfolding d'
  proof (rule linked_step [OF assms])
    fix c assume "c \<in> set (contracts d)"
    then show "\<exists>c'\<in>set (contracts (d\<lparr>contracts := map ?g (contracts d)\<rparr>)).
                 entityId_c c' = entityId_c c \<and> id_c c' = id_c c"
      using keep_map [of ?g c "contracts d"] by simp
  next
    fix ch assume "ch \<in> set (challenges (d\<lparr>contracts := map ?g (contracts d)\<rparr>))"
    then have "ch \<in> set (challenges d)" by simp
    then show "(\<exists>ch0\<in>set (challenges d). entityId_ch ch0 = entityId_ch ch
                                               \<and> contractId_ch ch0 = contractId_ch ch)
                  \<or> (\<exists>c\<in>set (contracts d). entityId_c c = entityId_ch ch
                                              \<and> id_c c = contractId_ch ch)"
      by blast
  qed
qed

lemma completeVerification_success_store:
  "completeVerificationController e usr inp d = (Inr s, d') \<Longrightarrow>
     \<exists>eid k. d' = bothApplied e d eid (challengeId_in inp) k"
  unfolding completeVerificationController_def completeVerification_unit dbCall_def
  by (auto split: option.splits if_splits sum.splits prod.splits)

lemma linked_bothApplied:
  assumes "linked d"
  shows "linked (bothApplied e d eid cid k)"
proof (rule linked_step [OF assms])
  let ?g = "\<lambda>c. if entityId_c c = eid \<and> id_c c = k
               then c\<lparr>state_c := VERIFIED, updatedAt_c := now e\<rparr> else c"
  fix c assume "c \<in> set (contracts d)"
  moreover have "\<And>c. entityId_c (?g c) = entityId_c c \<and> id_c (?g c) = id_c c"
    by simp
  ultimately have "\<exists>c'\<in>set (map ?g (contracts d)).
                     entityId_c c' = entityId_c c \<and> id_c c' = id_c c"
    using keep_map [of ?g c "contracts d"] by blast
  then show "\<exists>c'\<in>set (contracts (bothApplied e d eid cid k)).
               entityId_c c' = entityId_c c \<and> id_c c' = id_c c"
    by (simp only: bothApplied_contracts_map)
next
  let ?h = "\<lambda>c. if entityId_ch c = eid \<and> id_ch c = cid then c\<lparr>state_ch := COMPLETED\<rparr> else c"
  fix ch assume "ch \<in> set (challenges (bothApplied e d eid cid k))"
  then have "ch \<in> set (map ?h (challenges d))"
    by (simp only: bothApplied_challenges_map)
  moreover have "\<And>c. entityId_ch (?h c) = entityId_ch c \<and> contractId_ch (?h c) = contractId_ch c"
    by simp
  ultimately have "\<exists>ch0\<in>set (challenges d). entityId_ch ch0 = entityId_ch ch
                                        \<and> contractId_ch ch0 = contractId_ch ch"
    using old_challenge_map [of ?h ch "challenges d"] by blast
  then show "(\<exists>ch0\<in>set (challenges d). entityId_ch ch0 = entityId_ch ch
                                               \<and> contractId_ch ch0 = contractId_ch ch)
                  \<or> (\<exists>c\<in>set (contracts d). entityId_c c = entityId_ch ch
                                              \<and> id_c c = contractId_ch ch)"
    by (rule disjI1)
qed

lemma linked_completeVerification:
  assumes "linked d"
  shows "linked (snd (completeVerificationController e usr inp d))"
proof (cases "completeVerificationController e usr inp d")
  case (Pair r d')
  show ?thesis
  proof (cases r)
    case (Inl err)
    then have "d' = d" using Pair completeVerification_failure_keeps_store by blast
    then show ?thesis using Pair assms by simp
  next
    case (Inr s)
    then obtain eid k where
      "d' = bothApplied e d eid (challengeId_in inp) k"
      using Pair completeVerification_success_store by blast
    then show ?thesis using Pair assms linked_bothApplied by simp
  qed
qed

lemma startVerification_store:
  "snd (startVerificationController e usr contractId d) \<noteq> d \<Longrightarrow>
     \<exists>u c. usr = Some u \<and> getActiveContract d contractId (entityId u) = Some c
         \<and> snd (startVerificationController e usr contractId d)
             = d\<lparr>challenges := challenges d @ [issuedChallenge e u contractId c]\<rparr>"
  unfolding startVerificationController_def dbCall_def insertChallenge_def Let_def
    issuedChallenge_def
  by (auto split: option.splits if_splits sum.splits prod.splits)

lemma linked_startVerification:
  assumes "linked d"
  shows "linked (snd (startVerificationController e usr contractId d))"
proof (cases "snd (startVerificationController e usr contractId d) = d")
  case True
  then show ?thesis using assms by simp
next
  case False
  then obtain u c where
        c: "getActiveContract d contractId (entityId u) = Some c"
    and d': "snd (startVerificationController e usr contractId d)
               = d\<lparr>challenges := challenges d @ [issuedChallenge e u contractId c]\<rparr>"
    using startVerification_store by blast
  let ?row = "issuedChallenge e u contractId c"
  have row: "entityId_ch ?row = entityId u" "contractId_ch ?row = contractId"
    by (simp_all add: issuedChallenge_def)
  have cmem: "c \<in> set (contracts d)" "id_c c = contractId" "entityId_c c = entityId u"
    using first_filter_SomeD [OF c [unfolded getActiveContract_def]] by simp_all
  show ?thesis
    unfolding d'
  proof (rule linked_step [OF assms])
    fix x assume "x \<in> set (contracts d)"
    then show "\<exists>c'\<in>set (contracts (d\<lparr>challenges := challenges d @ [?row]\<rparr>)).
                 entityId_c c' = entityId_c x \<and> id_c c' = id_c x"
      by auto
  next
    fix ch assume "ch \<in> set (challenges (d\<lparr>challenges := challenges d @ [?row]\<rparr>))"
    then have "ch \<in> set (challenges d) \<or> ch = ?row" by auto
    then show "(\<exists>ch0\<in>set (challenges d). entityId_ch ch0 = entityId_ch ch
                                             \<and> contractId_ch ch0 = contractId_ch ch)
                \<or> (\<exists>c\<in>set (contracts d). entityId_c c = entityId_ch ch
                                            \<and> id_c c = contractId_ch ch)"
      using cmem row by auto
  qed
qed

lemma insertTransaction_snd:
  "\<exists>ts. snd (insertTransaction e d t) = d\<lparr>transactions := ts\<rparr>"
  unfolding insertTransaction_def Let_def snd_conv by (rule exI) (rule refl)

lemma createContract_store_change:
  "snd (createContractController e usr inp d) = d
   \<or> (\<exists>g ts. (\<forall>c. entityId_c (g c) = entityId_c c \<and> id_c (g c) = id_c c)
          \<and> snd (createContractController e usr inp d)
              = d\<lparr>contracts := map g (contracts d), transactions := ts\<rparr>)
   \<or> (\<exists>row ts. snd (createContractController e usr inp d)
              = d\<lparr>contracts := contracts d @ [row], transactions := ts\<rparr>)"
proof (cases "createContractController e usr inp d")
  case (Pair r d')
  show ?thesis
  proof (cases r)
    case (Inl err)
    then have "d' = d" using Pair createContractController_failure by blast
    then show ?thesis using Pair by simp
  next
    case (Inr res)
    have "usr \<noteq> None"
      using Pair Inr by (auto simp: createContractController_def Let_def split: option.splits)
    then obtain u where u: "usr = Some u" by blast
    obtain tx rc bl where
      body: "createContract_tx e u (getAddress e (contractAddress_in inp))
               (getAddress e (deployerAddress_in inp)) inp tx rc bl d = (Inr res, d')"
      using Pair Inr u createContractController_success by blast
    from createContract_tx_success [OF body] show ?thesis
    proof (elim disjE exE conjE)
      fix ex
      assume "restoreDeletedContract e d (id_c ex) (appId_in inp)
              (if hasAlreadyVerifiedDeployer e d (entityId u)
                    (getAddress e (deployerAddress_in inp))
               then VERIFIED else NOT_VERIFIED) = (res, d')"
      then have restored: "d' = snd (restoreDeletedContract e d (id_c ex) (appId_in inp)
              (if hasAlreadyVerifiedDeployer e d (entityId u)
                    (getAddress e (deployerAddress_in inp))
               then VERIFIED else NOT_VERIFIED))"
        by simp
      let ?g = "\<lambda>c. if id_c c = id_c ex
                   then c\<lparr>state_c := (if hasAlreadyVerifiedDeployer e d (entityId u)
                                              (getAddress e (deployerAddress_in inp))
                                         then VERIFIED else NOT_VERIFIED),
                          appId_c := appId_in inp, updatedAt_c := now e\<rparr>
                   else c"
      have "d' = d\<lparr>contracts := map ?g (contracts d), transactions := transactions d\<rparr>"
        using restored by (simp add: restoreDeletedContract_snd)
      then have "(\<forall>c. entityId_c (?g c) = entityId_c c \<and> id_c (?g c) = id_c c)
          \<and> snd (createContractController e usr inp d)
              = d\<lparr>contracts := map ?g (contracts d), transactions := transactions d\<rparr>"
        using Pair by simp
      then have "\<exists>g ts. (\<forall>c. entityId_c (g c) = entityId_c c \<and> id_c (g c) = id_c c)
          \<and> snd (createContractController e usr inp d)
              = d\<lparr>contracts := map g (contracts d), transactions := ts\<rparr>"
        by (intro exI)
      then show ?thesis by (intro disjI2 disjI1)
    next
      fix row d1
      assume ins: "insertContract e d
                  \<lparr> contractAddress_ic = getAddress e (contractAddress_in inp),
                    deploymentTxHash_ic = deploymentTxHash_in inp,
                    deployerAddress_ic = getAddress e (deployerAddress_in inp),
                    chainId_ic = chainId_in inp, appId_ic = appId_in inp,
                    state_ic = (if hasAlreadyVerifiedDeployer e d (entityId u)
                                     (getAddress e (deployerAddress_in inp))
                                then VERIFIED else NOT_VERIFIED),
                    entityId_ic = entityId u \<rparr> = Inr (row, d1)"
         and d': "d' = snd (insertTransaction e d1
                      (viemContractDeploymentTransactionToDbTransaction rc tx (entityId u)
                         (chainId_in inp) (id_c row) (timestamp_b bl)))"
      have d1: "d1 = d\<lparr>contracts := contracts d @ [row]\<rparr>"
        using insertContract_row [OF ins] by simp
      obtain ts where "d' = d1\<lparr>transactions := ts\<rparr>"
        using d' insertTransaction_snd by blast
      then have "snd (createContractController e usr inp d)
                   = d\<lparr>contracts := contracts d @ [row], transactions := ts\<rparr>"
        using d1 Pair by simp
      then have "\<exists>row ts. snd (createContractController e usr inp d)
                   = d\<lparr>contracts := contracts d @ [row], transactions := ts\<rparr>"
        by (intro exI)
      then show ?thesis by (intro disjI2)
    qed
  qed
qed

lemma linked_createContract:
  assumes "linked d"
  shows "linked (snd (createContractController e usr inp d))"
proof -
  from createContract_store_change [of e usr inp d] show ?thesis
  proof (elim disjE exE conjE)
    assume "snd (createContractController e usr inp d) = d"
    then show ?thesis using assms by simp
  next
    fix g ts
    assume g: "\<forall>c. entityId_c (g c) = entityId_c c \<and> id_c (g c) = id_c c"
       and d': "snd (createContractController e usr inp d)
              = d\<lparr>contracts := map g (contracts d), transactions := ts\<rparr>"
    show ?thesis
      unfolding d'
    proof (rule linked_step [OF assms])
      fix c assume "c \<in> set (contracts d)"
      then show "\<exists>c'\<in>set (contracts (d\<lparr>contracts := map g (contracts d),
                                          transactions := ts\<rparr>)).
                   entityId_c c' = entityId_c c \<and> id_c c' = id_c c"
        using keep_map [of g c "contracts d"] g by simp
    next
      fix ch assume "ch \<in> set (challenges (d\<lparr>contracts := map g (contracts d),
                                              transactions := ts\<rparr>))"
      then have "ch \<in> set (challenges d)" by simp
      then show "(\<exists>ch0\<in>set (challenges d). entityId_ch ch0 = entityId_ch ch
                                               \<and> contractId_ch ch0 = contractId_ch ch)
                  \<or> (\<exists>c\<in>set (contracts d). entityId_c c = entityId_ch ch
                                              \<and> id_c c = contractId_ch ch)"
        by blast
    qed
  next
    fix row ts
    assume d': "snd (createContractController e usr inp d)
              = d\<lparr>contracts := contracts d @ [row], transactions := ts\<rparr>"
    show ?thesis
      unfolding d'
    proof (rule linked_step [OF assms])
      fix c assume "c \<in> set (contracts d)"
      then show "\<exists>c'\<in>set (contracts (d\<lparr>contracts := contracts d @ [row],
                                          transactions := ts\<rparr>)).
                   entityId_c c' = entityId_c c \<and> id_c c' = id_c c"
        by auto
    next
      fix ch assume "ch \<in> set (challenges (d\<lparr>contracts := contracts d @ [row],
                                              transactions := ts\<rparr>))"
      then have "ch \<in> set (challenges d)" by simp
      then show "(\<exists>ch0\<in>set (challenges d). entityId_ch ch0 = entityId_ch ch
                                               \<and> contractId_ch ch0 = contractId_ch ch)
                  \<or> (\<exists>c\<in>set (contracts d). entityId_c c = entityId_ch ch
                                              \<and> id_c c = contractId_ch ch)"
        by blast
    qed
  qed
qed


lemma completeVerification_success_found:
  "completeVerificationController e (Some u) inp d = (Inr s, d') \<Longrightarrow>
     \<exists>ch. getChallengeByChallengeId e d (entityId u) (challengeId_in inp) = Some ch
        \<and> d' = bothApplied e d (entityId u) (challengeId_in inp) (contractId_ch ch)"
  unfolding completeVerificationController_def completeVerification_unit dbCall_def
  by (auto split: option.splits if_splits sum.splits prod.splits)

lemma completeVerification_linked:
  assumes "linked d"
      and "completeVerificationController e (Some u) inp d = (Inr s, d')"
  shows "\<exists>ch c'. getChallengeByChallengeId e d (entityId u) (challengeId_in inp) = Some ch
           \<and> list_ex (\<lambda>c. entityId_ch c = entityId u \<and> id_ch c = challengeId_in inp
                           \<and> state_ch c = COMPLETED) (challenges d')
           \<and> getActiveContract d' (contractId_ch ch) (entityId u) = Some c'
           \<and> state_c c' = VERIFIED"
proof -
  from completeVerification_success_found [OF assms(2)] obtain ch where
        ch: "getChallengeByChallengeId e d (entityId u) (challengeId_in inp) = Some ch"
    and d': "d' = bothApplied e d (entityId u) (challengeId_in inp) (contractId_ch ch)"
    by blast
  have 1: "list_ex (\<lambda>c. entityId_ch c = entityId u \<and> id_ch c = challengeId_in inp
                           \<and> state_ch c = COMPLETED) (challenges d')"
    unfolding d' using ch by (rule bothApplied_challenge_row)
  have "list_ex (\<lambda>c. entityId_c c = entityId u \<and> id_c c = contractId_ch ch) (contracts d)"
    using assms(1) ch by (rule linked_found)
  then obtain c' where 2: "getActiveContract d' (contractId_ch ch) (entityId u) = Some c'"
                          "state_c c' = VERIFIED"
    unfolding d' using bothApplied_active by blast
  show ?thesis
    using ch 1 2 by (intro exI [of _ ch] exI [of _ c'] conjI)
qed

end
